theory Spec2Isabelle
  imports Complex_Main "HOL-Library.Stream" "HOL-Library.Log_Nat"
begin

section \<open>Data model (services/shared/src/types/order.ts)\<close>

datatype OrderStatus = PENDING | CONFIRMED | PROCESSING | SHIPPED | DELIVERED | CANCELLED | FAILED

datatype PaymentState = PAY_PENDING | PAY_AUTHORIZED | PAY_CAPTURED | PAY_FAILED | PAY_REFUNDED

text \<open>
  A JavaScript \<open>number\<close> that holds a quantity is an \<open>int\<close>; one that holds money is a
  \<open>rat\<close> (every finite double is a rational), and the arithmetic on it rounds as IEEE
  binary64 does (section \<open>Arithmetic\<close>).
\<close>

record OrderItem =
  sku :: string
  name :: string
  quantity :: int
  unit_price :: rat
  total_price :: rat

record Address =
  street :: string
  city :: string
  state :: string
  zip :: string

text \<open>
  An item of the orders table. The key attributes \<open>customer_id\<close> and \<open>order_ts_id\<close> are
  always there. Every other attribute is optional in the model although the interface
  \<open>Order\<close> declares it required: the source casts what the table returns
  (\<open>result.Item as Order\<close>) without checking it, and an \<open>UpdateCommand\<close> on a key that
  holds no item creates one that carries the key and the attributes of its \<open>SET\<close> clause
  only. \<open>None\<close> is the source's \<open>undefined\<close>.
\<close>

record Order =
  customer_id :: string
  order_ts_id :: string
  order_id :: "string option"
  order_ts :: "string option"
  store_id :: "string option"
  county_id :: "string option"
  status :: "OrderStatus option"
  payment_state :: "PaymentState option"
  items :: "OrderItem list option"
  subtotal :: "rat option"
  tax :: "rat option"
  total :: "rat option"
  shipping_address :: "Address option"
  idempotency_key :: "string option"
  created_at :: "string option"
  updated_at :: "string option"
  ttl :: "nat option"

text \<open>An item of the by-ID table (interface \<open>OrderById\<close>), keyed by \<open>order_id\<close>.\<close>

record OrderById =
  b_order_id :: string
  b_customer_id :: "string option"
  b_order_ts :: "string option"
  b_status :: "OrderStatus option"
  b_payment_state :: "PaymentState option"
  b_store_id :: "string option"
  b_county_id :: "string option"
  b_items :: "OrderItem list option"
  b_subtotal :: "rat option"
  b_tax :: "rat option"
  b_total :: "rat option"
  b_shipping_address :: "Address option"
  b_created_at :: "string option"
  b_updated_at :: "string option"

text \<open>
  An item of the inventory table, keyed by \<open>store_sku\<close> (\<open>storeId#sku\<close>). The handlers of
  this repository read and write these attributes only.
\<close>

record InventoryItem =
  store_sku :: string
  quantity_available :: "int option"
  quantity_reserved :: "int option"
  inv_updated_at :: "string option"

text \<open>The work-queue message (services/shared/src/sqs/client.ts).\<close>

datatype Action = PROCESS_ORDER | RESERVE_INVENTORY | PROCESS_PAYMENT | SEND_NOTIFICATION

record OrderProcessingMessage =
  m_order_id :: string
  m_customer_id :: string
  m_order_ts_id :: string
  m_action :: Action
  m_attempt :: "nat option"
  m_timestamp :: string

text \<open>The payload of a notification request (send-notifications.ts).\<close>

record SendNotificationRequest =
  n_order_id :: string
  n_customer_id :: string
  n_status :: OrderStatus
  n_total :: "rat option"
  n_reason :: "string option"

section \<open>The world the handlers run in\<close>

text \<open>
  The three tables, what has been sent to the work queue, the asynchronous invocations of
  the notification function, the names of the functions \<open>invokeFunction\<close> has been
  called for (a log the model keeps; nothing reads it), and what the environment will
  answer next: whether each coming request to an AWS service fails (\<open>faults\<close>), whether
  a synchronously invoked function ends in a function error (\<open>function_errors\<close>), the
  strings \<open>ulid()\<close> returns, the values of \<open>new Date().toISOString()\<close>, of
  \<open>Date.now()\<close> and of \<open>Math.random()\<close>. The handlers run one after the other: a
  change made by another process shows only as a difference between what the tables hold
  when a handler starts.
\<close>

record world =
  orders :: "string \<times> string \<rightharpoonup> Order"
  orders_by_id :: "string \<rightharpoonup> OrderById"
  inventory :: "string \<rightharpoonup> InventoryItem"
  queue :: "OrderProcessingMessage list"
  notifications :: "SendNotificationRequest list"
  invoked :: "string list"
  faults :: "bool stream"
  function_errors :: "bool stream"
  ulids :: "string stream"
  instants :: "string stream"
  epochs :: "nat stream"
  randoms :: "rat stream"

text \<open>
  What the source's code can catch: the exceptions of DynamoDB it tells apart by name, the
  error of any other failing request to a service (\<open>ServiceError\<close>), the \<open>TypeError\<close> of
  JavaScript, and the \<open>Error\<close> the document client throws itself when it is given a number
  it will not marshall (\<open>MarshallError\<close>).
\<close>

datatype error =
    ConditionalCheckFailedException
  | TransactionCanceledException
  | ValidationException
  | ServiceError
  | TypeError
  | MarshallError

definition take_fault :: "world \<Rightarrow> bool \<times> world" where
  "take_fault w = (shd (faults w), w\<lparr>faults := stl (faults w)\<rparr>)"

definition new_Date_toISOString :: "world \<Rightarrow> string \<times> world" where
  "new_Date_toISOString w = (shd (instants w), w\<lparr>instants := stl (instants w)\<rparr>)"

definition Date_now :: "world \<Rightarrow> nat \<times> world" where
  "Date_now w = (shd (epochs w), w\<lparr>epochs := stl (epochs w)\<rparr>)"

definition Math_random :: "world \<Rightarrow> rat \<times> world" where
  "Math_random w = (shd (randoms w), w\<lparr>randoms := stl (randoms w)\<rparr>)"

definition ulid :: "world \<Rightarrow> string \<times> world" where
  "ulid w = (shd (ulids w), w\<lparr>ulids := stl (ulids w)\<rparr>)"

section \<open>The requests the source sends to DynamoDB\<close>

text \<open>
  Each definition is one \<open>client.send\<close> of the source. The request fails with a service
  error when the environment says so; otherwise DynamoDB evaluates it on the table.
\<close>

text \<open>
  The document client of \<open>getDocumentClient\<close> (dynamodb/client.ts) marshalls what a command
  carries before the request is sent. Its \<open>marshallOptions\<close> do not set
  \<open>allowImpreciseNumbers\<close>, so a number above \<open>Number.MAX_SAFE_INTEGER\<close> or below
  \<open>Number.MIN_SAFE_INTEGER\<close> makes the client throw; nothing is sent then. The numbers of
  an order are the quantity, the unit price and the total price of its line items, its
  subtotal, tax and total, and its \<open>ttl\<close>; an \<open>undefined\<close> attribute is left out
  (\<open>removeUndefinedValues\<close>).
\<close>

definition MAX_SAFE_INTEGER :: rat where
  "MAX_SAFE_INTEGER = 2 ^ 53 - 1"

definition marshalls_number :: "rat \<Rightarrow> bool" where
  "marshalls_number x = (- MAX_SAFE_INTEGER \<le> x \<and> x \<le> MAX_SAFE_INTEGER)"

definition marshalls_attribute :: "rat option \<Rightarrow> bool" where
  "marshalls_attribute v = (case v of None \<Rightarrow> True | Some x \<Rightarrow> marshalls_number x)"

definition marshalls_item :: "OrderItem \<Rightarrow> bool" where
  "marshalls_item item =
     (marshalls_number (of_int (quantity item)) \<and> marshalls_number (unit_price item)
      \<and> marshalls_number (total_price item))"

definition marshalls_items :: "OrderItem list option \<Rightarrow> bool" where
  "marshalls_items v = (case v of None \<Rightarrow> True | Some its \<Rightarrow> list_all marshalls_item its)"

definition marshalls_order :: "Order \<Rightarrow> bool" where
  "marshalls_order order =
     (marshalls_items (items order) \<and> marshalls_attribute (subtotal order)
      \<and> marshalls_attribute (tax order) \<and> marshalls_attribute (total order)
      \<and> marshalls_attribute (map_option of_nat (ttl order)))"

definition marshalls_order_by_id :: "OrderById \<Rightarrow> bool" where
  "marshalls_order_by_id item =
     (marshalls_items (b_items item) \<and> marshalls_attribute (b_subtotal item)
      \<and> marshalls_attribute (b_tax item) \<and> marshalls_attribute (b_total item))"

text \<open>\<open>PutCommand\<close> on the orders table with \<open>attribute_not_exists(customer_id)\<close>.\<close>

definition put_order_if_absent :: "Order \<Rightarrow> world \<Rightarrow> (error + unit) \<times> world" where
  "put_order_if_absent order w =
     (if \<not> marshalls_order order then (Inl MarshallError, w)
      else
        (case take_fault w of
           (True, w1) \<Rightarrow> (Inl ServiceError, w1)
         | (False, w1) \<Rightarrow>
             (case orders w1 (customer_id order, order_ts_id order) of
                Some _ \<Rightarrow> (Inl ConditionalCheckFailedException, w1)
              | None \<Rightarrow>
                  (Inr (), w1\<lparr>orders := (orders w1)((customer_id order, order_ts_id order) \<mapsto> order)\<rparr>))))"

text \<open>
  \<open>PutCommand\<close> on the by-ID table, without a condition. The key comes from
  \<open>order.order_id\<close>; an item without its key attribute is marshalled and sent, and
  refused by the table. The key is a string: the numbers that are marshalled are those of
  the item whatever its key.
\<close>

definition put_order_by_id ::
  "string option \<Rightarrow> (string \<Rightarrow> OrderById) \<Rightarrow> world \<Rightarrow> (error + unit) \<times> world" where
  "put_order_by_id key item w =
     (if \<not> marshalls_order_by_id (item (case key of None \<Rightarrow> [] | Some k \<Rightarrow> k))
      then (Inl MarshallError, w)
      else
        (case take_fault w of
           (True, w1) \<Rightarrow> (Inl ServiceError, w1)
         | (False, w1) \<Rightarrow>
             (case key of
                None \<Rightarrow> (Inl ValidationException, w1)
              | Some k \<Rightarrow> (Inr (), w1\<lparr>orders_by_id := (orders_by_id w1)(k \<mapsto> item k)\<rparr>))))"

text \<open>\<open>GetCommand\<close> on the orders table and on the by-ID table.\<close>

definition get_order :: "string \<Rightarrow> string \<Rightarrow> world \<Rightarrow> (error + Order option) \<times> world" where
  "get_order customerId orderTsId w =
     (case take_fault w of
        (True, w1) \<Rightarrow> (Inl ServiceError, w1)
      | (False, w1) \<Rightarrow> (Inr (orders w1 (customerId, orderTsId)), w1))"

definition get_order_by_id :: "string \<Rightarrow> world \<Rightarrow> (error + OrderById option) \<times> world" where
  "get_order_by_id orderId w =
     (case take_fault w of
        (True, w1) \<Rightarrow> (Inl ServiceError, w1)
      | (False, w1) \<Rightarrow> (Inr (orders_by_id w1 orderId), w1))"

text \<open>The item an update finds at its key, or the one it starts from when there is none.\<close>

definition blank_order :: "string \<Rightarrow> string \<Rightarrow> Order" where
  "blank_order customerId orderTsId =
     \<lparr>customer_id = customerId, order_ts_id = orderTsId, order_id = None, order_ts = None,
      store_id = None, county_id = None, status = None, payment_state = None, items = None,
      subtotal = None, tax = None, total = None, shipping_address = None,
      idempotency_key = None, created_at = None, updated_at = None, ttl = None\<rparr>"

definition blank_order_by_id :: "string \<Rightarrow> OrderById" where
  "blank_order_by_id orderId =
     \<lparr>b_order_id = orderId, b_customer_id = None, b_order_ts = None, b_status = None,
      b_payment_state = None, b_store_id = None, b_county_id = None, b_items = None,
      b_subtotal = None, b_tax = None, b_total = None, b_shipping_address = None,
      b_created_at = None, b_updated_at = None\<rparr>"

text \<open>
  \<open>UpdateCommand\<close> on the orders table: \<open>SET #status = :newStatus, updated_at = :now\<close>,
  with the condition \<open>#status = :currentStatus\<close> when an expected status is given. The
  condition is false on a key without an item and on an item without a status.
\<close>

definition update_order_status ::
  "string \<Rightarrow> string \<Rightarrow> OrderStatus \<Rightarrow> string \<Rightarrow> OrderStatus option \<Rightarrow> world
   \<Rightarrow> (error + unit) \<times> world" where
  "update_order_status customerId orderTsId newStatus now expectedCurrentStatus w =
     (case take_fault w of
        (True, w1) \<Rightarrow> (Inl ServiceError, w1)
      | (False, w1) \<Rightarrow>
          (let found = orders w1 (customerId, orderTsId);
               holds = (case expectedCurrentStatus of
                          None \<Rightarrow> True
                        | Some expected \<Rightarrow>
                            (case found of
                               None \<Rightarrow> False
                             | Some item \<Rightarrow> status item = Some expected));
               item = (case found of
                         None \<Rightarrow> blank_order customerId orderTsId
                       | Some item \<Rightarrow> item)
           in if holds
              then (Inr (), w1\<lparr>orders := (orders w1)((customerId, orderTsId) \<mapsto>
                              item\<lparr>status := Some newStatus, updated_at := Some now\<rparr>)\<rparr>)
              else (Inl ConditionalCheckFailedException, w1)))"

text \<open>\<open>UpdateCommand\<close> on the by-ID table, the same \<open>SET\<close> clause, no condition.\<close>

definition update_order_by_id_status ::
  "string \<Rightarrow> OrderStatus \<Rightarrow> string \<Rightarrow> world \<Rightarrow> (error + unit) \<times> world" where
  "update_order_by_id_status orderId newStatus now w =
     (case take_fault w of
        (True, w1) \<Rightarrow> (Inl ServiceError, w1)
      | (False, w1) \<Rightarrow>
          (let item = (case orders_by_id w1 orderId of
                         None \<Rightarrow> blank_order_by_id orderId
                       | Some item \<Rightarrow> item)
           in (Inr (), w1\<lparr>orders_by_id := (orders_by_id w1)(orderId \<mapsto>
                            item\<lparr>b_status := Some newStatus, b_updated_at := Some now\<rparr>)\<rparr>)))"

section \<open>Order repository (services/shared/src/dynamodb/operations.ts)\<close>

definition getOrderByCustomer ::
  "string \<Rightarrow> string \<Rightarrow> world \<Rightarrow> (error + Order option) \<times> world" where
  "getOrderByCustomer customerId orderTsId w = get_order customerId orderTsId w"

definition getOrderById :: "string \<Rightarrow> world \<Rightarrow> (error + OrderById option) \<times> world" where
  "getOrderById orderId w = get_order_by_id orderId w"

text \<open>The by-ID projection \<open>createOrder\<close> builds from the order, for the key \<open>k\<close>.\<close>

definition orderById_of :: "Order \<Rightarrow> string \<Rightarrow> OrderById" where
  "orderById_of order k =
     \<lparr>b_order_id = k, b_customer_id = Some (customer_id order), b_order_ts = order_ts order,
      b_status = status order, b_payment_state = payment_state order,
      b_store_id = store_id order, b_county_id = county_id order, b_items = items order,
      b_subtotal = subtotal order, b_tax = tax order, b_total = total order,
      b_shipping_address = shipping_address order, b_created_at = created_at order,
      b_updated_at = updated_at order\<rparr>"

text \<open>
  The \<open>catch\<close> block of \<open>createOrder\<close>: on a failed condition the existing order is read
  and returned; every other error, and a failed condition with nothing to read, is thrown
  again. An error of the read itself leaves the block as it is.
\<close>

definition createOrder_catch ::
  "error \<Rightarrow> Order \<Rightarrow> world \<Rightarrow> (error + bool \<times> Order) \<times> world" where
  "createOrder_catch e order w =
     (if e = ConditionalCheckFailedException
      then (case getOrderByCustomer (customer_id order) (order_ts_id order) w of
              (Inl e', w1) \<Rightarrow> (Inl e', w1)
            | (Inr (Some existing), w1) \<Rightarrow> (Inr (False, existing), w1)
            | (Inr None, w1) \<Rightarrow> (Inl e, w1))
      else (Inl e, w))"

definition createOrder :: "Order \<Rightarrow> world \<Rightarrow> (error + bool \<times> Order) \<times> world" where
  "createOrder order w =
     (case put_order_if_absent order w of
        (Inl e, w1) \<Rightarrow> createOrder_catch e order w1
      | (Inr _, w1) \<Rightarrow>
          (case put_order_by_id (order_id order) (orderById_of order) w1 of
             (Inl e, w2) \<Rightarrow> createOrder_catch e order w2
           | (Inr _, w2) \<Rightarrow> (Inr (True, order), w2)))"

definition updateOrderStatus ::
  "string \<Rightarrow> string \<Rightarrow> string \<Rightarrow> OrderStatus \<Rightarrow> OrderStatus option \<Rightarrow> world
   \<Rightarrow> (error + bool) \<times> world" where
  "updateOrderStatus customerId orderTsId orderId newStatus expectedCurrentStatus w =
     (case new_Date_toISOString w of
        (now, w0) \<Rightarrow>
          (case update_order_status customerId orderTsId newStatus now expectedCurrentStatus w0 of
             (Inl e, w1) \<Rightarrow>
               (if e = ConditionalCheckFailedException then (Inr False, w1) else (Inl e, w1))
           | (Inr _, w1) \<Rightarrow>
               (case update_order_by_id_status orderId newStatus now w1 of
                  (Inl e, w2) \<Rightarrow>
                    (if e = ConditionalCheckFailedException then (Inr False, w2) else (Inl e, w2))
                | (Inr _, w2) \<Rightarrow> (Inr True, w2))))"

section \<open>Arithmetic on JavaScript numbers\<close>

text \<open>
  \<open>round_double\<close> rounds a rational to the nearest double, ties to even: \<open>ilog2\<close> is the
  exponent of the binade the value lies in, and the significand has 53 bits. The exponent
  range of binary64 is not modelled (no overflow to \<open>Infinity\<close>, no subnormal numbers).
\<close>

definition ilog2 :: "rat \<Rightarrow> int" where
  "ilog2 x = (if 1 \<le> x then bitlen \<lfloor>x\<rfloor> - 1 else - bitlen (\<lceil>1 / x\<rceil> - 1))"

definition round_half_even :: "rat \<Rightarrow> int" where
  "round_half_even q =
     (let f = \<lfloor>q\<rfloor>; d = q - of_int f
      in if d < 1 / 2 then f
         else if 1 / 2 < d then f + 1
         else if even f then f else f + 1)"

definition round_double :: "rat \<Rightarrow> rat" where
  "round_double x =
     (if x = 0 then 0
      else let ulp = 2 powi (ilog2 \<bar>x\<bar> - 52)
           in of_int (round_half_even (x / ulp)) * ulp)"

definition js_add :: "rat \<Rightarrow> rat \<Rightarrow> rat" where
  "js_add x y = round_double (x + y)"

definition js_mul :: "rat \<Rightarrow> rat \<Rightarrow> rat" where
  "js_mul x y = round_double (x * y)"

section \<open>The work queue (services/shared/src/sqs/client.ts)\<close>

definition sendOrderMessage :: "OrderProcessingMessage \<Rightarrow> world \<Rightarrow> (error + unit) \<times> world" where
  "sendOrderMessage message w =
     (case take_fault w of
        (True, w1) \<Rightarrow> (Inl ServiceError, w1)
      | (False, w1) \<Rightarrow> (Inr (), w1\<lparr>queue := queue w1 @ [message]\<rparr>))"

section \<open>The API handlers (services/order-api/src/handlers)\<close>

text \<open>
  What a handler returns: the status code and the body. The body is kept as a value; the
  source serialises it with \<open>JSON.stringify\<close>, which leaves out an \<open>undefined\<close> field.
\<close>

record ValidationError =
  field :: string
  code :: string

record OrderResponse =
  r_order_id :: "string option"
  r_customer_id :: string
  r_status :: "OrderStatus option"
  r_payment_state :: "PaymentState option"
  r_items :: "OrderItem list option"
  r_subtotal :: "rat option"
  r_tax :: "rat option"
  r_total :: "rat option"
  r_created_at :: "string option"
  r_message :: "string option"

datatype Body =
    ErrorBody string
  | ErrorOrderBody string string
  | NotCancellableBody string string "OrderStatus option" string
  | CancelledBody string OrderStatus string
  | ValidationBody string "ValidationError list"
  | OrderBody OrderResponse

record APIGatewayProxyResult =
  statusCode :: nat
  body :: Body

text \<open>
  The request of \<open>POST /orders\<close> as \<open>CreateOrderRequestSchema\<close> shapes it. The body of the
  event is absent, or not JSON, or JSON that the schema refuses for its shape (with the
  issues zod reports), or JSON of the schema's shape whose values are still to be checked.
\<close>

record CreateOrderItem =
  ci_sku :: string
  ci_name :: string
  ci_quantity :: int
  ci_unit_price :: rat

record CreateOrderRequest =
  q_customer_id :: string
  q_store_id :: string
  q_county_id :: string
  q_items :: "CreateOrderItem list"
  q_shipping_address :: Address

datatype EventBody =
    NoBody
  | InvalidJson
  | IllShaped "ValidationError list"
  | Shaped CreateOrderRequest

record APIGatewayProxyEvent =
  headers :: "string \<rightharpoonup> string"
  pathParameters :: "string \<rightharpoonup> string"
  event_body :: EventBody

text \<open>
  The checks of the schema on the values, in the order of its fields. The field of an
  issue is its path joined with dots (\<open>e.path.join(".")\<close>), in which an item of \<open>items\<close>
  appears as its index, printed in decimal.
\<close>

definition check :: "bool \<Rightarrow> string \<Rightarrow> string \<Rightarrow> ValidationError list" where
  "check ok f c = (if ok then [] else [\<lparr>field = f, code = c\<rparr>])"

fun String_of_nat :: "nat \<Rightarrow> string" where
  "String_of_nat n =
     (if n < 10 then [''0123456789'' ! n]
      else String_of_nat (n div 10) @ [''0123456789'' ! (n mod 10)])"

declare String_of_nat.simps [simp del]

definition item_issues :: "nat \<Rightarrow> CreateOrderItem \<Rightarrow> ValidationError list" where
  "item_issues i item =
     check (1 \<le> length (ci_sku item)) (''items.'' @ String_of_nat i @ ''.sku'') ''too_small''
     @ check (1 \<le> length (ci_name item)) (''items.'' @ String_of_nat i @ ''.name'') ''too_small''
     @ check (0 < ci_quantity item) (''items.'' @ String_of_nat i @ ''.quantity'') ''too_small''
     @ check (0 < ci_unit_price item) (''items.'' @ String_of_nat i @ ''.unit_price'') ''too_small''"

definition request_issues :: "CreateOrderRequest \<Rightarrow> ValidationError list" where
  "request_issues request =
     check (1 \<le> length (q_customer_id request)) ''customer_id'' ''too_small''
     @ check (1 \<le> length (q_store_id request)) ''store_id'' ''too_small''
     @ check (1 \<le> length (q_county_id request)) ''county_id'' ''too_small''
     @ check (1 \<le> length (q_items request)) ''items'' ''too_small''
     @ concat (map (\<lambda>(i, item). item_issues i item) (enumerate 0 (q_items request)))
     @ check (1 \<le> length (street (q_shipping_address request))) ''shipping_address.street'' ''too_small''
     @ check (1 \<le> length (city (q_shipping_address request))) ''shipping_address.city'' ''too_small''
     @ check (2 \<le> length (state (q_shipping_address request))) ''shipping_address.state'' ''too_small''
     @ check (length (state (q_shipping_address request)) \<le> 2) ''shipping_address.state'' ''too_big''
     @ check (5 \<le> length (zip (q_shipping_address request))) ''shipping_address.zip'' ''too_small''
     @ check (length (zip (q_shipping_address request)) \<le> 10) ''shipping_address.zip'' ''too_big''"

definition parseAndValidateBody :: "EventBody \<Rightarrow> ValidationError list + CreateOrderRequest" where
  "parseAndValidateBody b =
     (case b of
        NoBody \<Rightarrow> Inl [\<lparr>field = ''body'', code = ''required''\<rparr>]
      | InvalidJson \<Rightarrow> Inl [\<lparr>field = ''body'', code = ''invalid_json''\<rparr>]
      | IllShaped issues \<Rightarrow> Inl issues
      | Shaped request \<Rightarrow>
          (if request_issues request = [] then Inr request else Inl (request_issues request)))"

definition generateOrderId :: "world \<Rightarrow> string \<times> world" where
  "generateOrderId w = (case ulid w of (u, w1) \<Rightarrow> (''ORD-'' @ u, w1))"

text \<open>The totals the create handler calculates, and the line items with their totals.\<close>

definition calc_subtotal :: "CreateOrderItem list \<Rightarrow> rat" where
  "calc_subtotal its =
     foldl (\<lambda>sum item. js_add sum (js_mul (of_int (ci_quantity item)) (ci_unit_price item))) 0 its"

definition calc_tax :: "rat \<Rightarrow> rat" where
  "calc_tax sub = js_mul sub (round_double (8 / 100))"

definition calc_total :: "rat \<Rightarrow> rat \<Rightarrow> rat" where
  "calc_total sub tx = js_add sub tx"

definition itemsWithTotals :: "CreateOrderItem list \<Rightarrow> OrderItem list" where
  "itemsWithTotals its =
     map (\<lambda>item. \<lparr>sku = ci_sku item, name = ci_name item, quantity = ci_quantity item,
                   unit_price = ci_unit_price item,
                   total_price = js_mul (of_int (ci_quantity item)) (ci_unit_price item)\<rparr>) its"

definition build_order ::
  "CreateOrderRequest \<Rightarrow> string \<Rightarrow> string \<Rightarrow> string \<Rightarrow> Order" where
  "build_order request idempotencyKey orderId orderTs =
     (let sub = calc_subtotal (q_items request);
          tx = calc_tax sub;
          tot = calc_total sub tx
      in \<lparr>customer_id = q_customer_id request,
          order_ts_id = orderTs @ ''#'' @ orderId,
          order_id = Some orderId,
          order_ts = Some orderTs,
          store_id = Some (q_store_id request),
          county_id = Some (q_county_id request),
          status = Some PENDING,
          payment_state = Some PAY_PENDING,
          items = Some (itemsWithTotals (q_items request)),
          subtotal = Some sub,
          tax = Some tx,
          total = Some tot,
          shipping_address = Some (q_shipping_address request),
          idempotency_key = Some idempotencyKey,
          created_at = Some orderTs,
          updated_at = Some orderTs,
          ttl = None\<rparr>)"

definition order_response :: "bool \<Rightarrow> Order \<Rightarrow> OrderResponse" where
  "order_response created order =
     \<lparr>r_order_id = order_id order, r_customer_id = customer_id order, r_status = status order,
      r_payment_state = payment_state order, r_items = items order,
      r_subtotal = subtotal order, r_tax = tax order, r_total = total order,
      r_created_at = created_at order,
      r_message = (if created then None else Some ''Order already exists (idempotent)'')\<rparr>"

definition internal_server_error :: APIGatewayProxyResult where
  "internal_server_error = \<lparr>statusCode = 500, body = ErrorBody ''Internal server error''\<rparr>"

text \<open>\<open>POST /orders\<close> (create-order.ts).\<close>

definition handler_create_order :: "APIGatewayProxyEvent \<Rightarrow> world \<Rightarrow> APIGatewayProxyResult \<times> world" where
  "handler_create_order event w =
     (let idempotencyKey = (case headers event ''X-Idempotency-Key'' of
                              Some k \<Rightarrow> Some k
                            | None \<Rightarrow> headers event ''x-idempotency-key'')
      in case idempotencyKey of
           None \<Rightarrow> (\<lparr>statusCode = 400, body = ErrorBody ''Missing X-Idempotency-Key header''\<rparr>, w)
         | Some key \<Rightarrow>
             if key = [] then (\<lparr>statusCode = 400, body = ErrorBody ''Missing X-Idempotency-Key header''\<rparr>, w)
             else
               (case parseAndValidateBody (event_body event) of
                  Inl errors \<Rightarrow> (\<lparr>statusCode = 400, body = ValidationBody ''Validation failed'' errors\<rparr>, w)
                | Inr request \<Rightarrow>
                    (case generateOrderId w of
                       (orderId, w1) \<Rightarrow>
                         (case new_Date_toISOString w1 of
                            (orderTs, w2) \<Rightarrow>
                              (case createOrder (build_order request key orderId orderTs) w2 of
                                 (Inl e, w3) \<Rightarrow> (internal_server_error, w3)
                               | (Inr (created, order), w3) \<Rightarrow>
                                   (if created
                                    then (case sendOrderMessage
                                                 \<lparr>m_order_id = orderId,
                                                  m_customer_id = q_customer_id request,
                                                  m_order_ts_id = orderTs @ ''#'' @ orderId,
                                                  m_action = PROCESS_ORDER,
                                                  m_attempt = None,
                                                  m_timestamp = orderTs\<rparr> w3 of
                                            (Inl e, w4) \<Rightarrow> (internal_server_error, w4)
                                          | (Inr _, w4) \<Rightarrow>
                                              (\<lparr>statusCode = 201, body = OrderBody (order_response True order)\<rparr>, w4))
                                    else (\<lparr>statusCode = 200, body = OrderBody (order_response False order)\<rparr>, w3)))))))"

text \<open>\<open>DELETE /orders/{order_id}\<close> (cancel-order.ts).\<close>

definition CANCELLABLE_STATUSES :: "OrderStatus list" where
  "CANCELLABLE_STATUSES = [PENDING, CONFIRMED]"

text \<open>How a template literal prints a value that may be \<open>undefined\<close>.\<close>

definition template :: "string option \<Rightarrow> string" where
  "template v = (case v of None \<Rightarrow> ''undefined'' | Some s \<Rightarrow> s)"

text \<open>
  The call of \<open>updateOrderStatus\<close> with a customer id that may be \<open>undefined\<close>: the document
  client drops an \<open>undefined\<close> key attribute (\<open>removeUndefinedValues\<close>), and the table
  refuses a key that does not match its schema.
\<close>

definition updateOrderStatus_of ::
  "string option \<Rightarrow> string \<Rightarrow> string \<Rightarrow> OrderStatus \<Rightarrow> OrderStatus option \<Rightarrow> world
   \<Rightarrow> (error + bool) \<times> world" where
  "updateOrderStatus_of customerId orderTsId orderId newStatus expectedCurrentStatus w =
     (case customerId of
        Some c \<Rightarrow> updateOrderStatus c orderTsId orderId newStatus expectedCurrentStatus w
      | None \<Rightarrow>
          (case new_Date_toISOString w of
             (now, w0) \<Rightarrow>
               (case take_fault w0 of
                  (True, w1) \<Rightarrow> (Inl ServiceError, w1)
                | (False, w1) \<Rightarrow> (Inl ValidationException, w1))))"

definition handler_cancel_order :: "APIGatewayProxyEvent \<Rightarrow> world \<Rightarrow> APIGatewayProxyResult \<times> world" where
  "handler_cancel_order event w =
     (case pathParameters event ''order_id'' of
        None \<Rightarrow> (\<lparr>statusCode = 400, body = ErrorBody ''Missing order_id parameter''\<rparr>, w)
      | Some orderId \<Rightarrow>
          if orderId = [] then (\<lparr>statusCode = 400, body = ErrorBody ''Missing order_id parameter''\<rparr>, w)
          else
            (case getOrderById orderId w of
               (Inl e, w1) \<Rightarrow> (internal_server_error, w1)
             | (Inr None, w1) \<Rightarrow>
                 (\<lparr>statusCode = 404, body = ErrorOrderBody ''Order not found'' orderId\<rparr>, w1)
             | (Inr (Some order), w1) \<Rightarrow>
                 if b_status order \<notin> Some ` set CANCELLABLE_STATUSES
                 then (\<lparr>statusCode = 409,
                        body = NotCancellableBody ''Order cannot be cancelled'' orderId (b_status order)
                                 ''Order can only be cancelled when status is PENDING or CONFIRMED''\<rparr>, w1)
                 else
                   (case updateOrderStatus_of (b_customer_id order)
                           (template (b_order_ts order) @ ''#'' @ b_order_id order)
                           orderId CANCELLED (b_status order) w1 of
                      (Inl e, w2) \<Rightarrow> (internal_server_error, w2)
                    | (Inr updated, w2) \<Rightarrow>
                        (if \<not> updated
                         then (\<lparr>statusCode = 409,
                                body = ErrorOrderBody ''Order status changed, please retry'' orderId\<rparr>, w2)
                         else (\<lparr>statusCode = 200,
                                body = CancelledBody orderId CANCELLED ''Order cancelled successfully''\<rparr>, w2)))))"

section \<open>Inventory reservation (order-processor/src/handlers/reserve-inventory.ts)\<close>

text \<open>
  The text in the \<open>error\<close> field of a response: a literal of the source; or
  \<open>String(error)\<close>, which prints the name of the error, a colon and its message, and is
  kept as the error it prints, the message being the thrower's; or, for a function error
  of an invoked function, \<open>errorPayload.errorMessage || "Function error"\<close>, the message
  of the payload Lambda returns, if it has one, and else the literal.
\<close>

datatype ErrorText =
    Text string
  | String_of error
  | ErrorMessage_or string

record ReserveInventoryRequest =
  ri_order_id :: string
  ri_customer_id :: string
  ri_store_id :: "string option"
  ri_items :: "OrderItem list option"

record FailedItem =
  f_sku :: string
  f_requested :: int
  f_available :: int

record ReserveInventoryResponse =
  rr_success :: bool
  rr_reservation_id :: "string option"
  rr_failed_items :: "FailedItem list option"
  rr_error :: "ErrorText option"

record AvailabilityCheck =
  c_sku :: string
  c_store_sku :: string
  c_requested :: int
  c_available :: int
  c_sufficient :: bool

definition generateReservationId :: "world \<Rightarrow> string \<times> world" where
  "generateReservationId w = (case ulid w of (u, w1) \<Rightarrow> (''RES-'' @ u, w1))"

definition calculateTTL :: "nat \<Rightarrow> world \<Rightarrow> nat \<times> world" where
  "calculateTTL minutes w = (case Date_now w of (ms, w1) \<Rightarrow> (ms div 1000 + minutes * 60, w1))"

text \<open>\<open>GetCommand\<close> on the inventory table.\<close>

definition get_inventory :: "string \<Rightarrow> world \<Rightarrow> (error + InventoryItem option) \<times> world" where
  "get_inventory storeSku w =
     (case take_fault w of
        (True, w1) \<Rightarrow> (Inl ServiceError, w1)
      | (False, w1) \<Rightarrow> (Inr (inventory w1 storeSku), w1))"

text \<open>
  The available quantity the handler computes from what the read returns:
  \<open>inventory ? (inventory.quantity_available ?? 0) - (inventory.quantity_reserved ?? 0) : 0\<close>.
\<close>

definition available_quantity :: "InventoryItem option \<Rightarrow> int" where
  "available_quantity found =
     (case found of
        None \<Rightarrow> 0
      | Some stock \<Rightarrow>
          (case quantity_available stock of None \<Rightarrow> 0 | Some a \<Rightarrow> a)
          - (case quantity_reserved stock of None \<Rightarrow> 0 | Some r \<Rightarrow> r))"

text \<open>The availability check of one item: the body of the \<open>map\<close> callback.\<close>

definition check_item ::
  "string option \<Rightarrow> OrderItem \<Rightarrow> world \<Rightarrow> (error + AvailabilityCheck) \<times> world" where
  "check_item storeId item w =
     (let storeSku = template storeId @ ''#'' @ sku item
      in case get_inventory storeSku w of
           (Inl e, w1) \<Rightarrow> (Inl e, w1)
         | (Inr found, w1) \<Rightarrow>
             (let available = available_quantity found
              in (Inr \<lparr>c_sku = sku item, c_store_sku = storeSku, c_requested = quantity item,
                       c_available = available, c_sufficient = (quantity item \<le> available)\<rparr>, w1)))"

text \<open>
  \<open>Promise.all\<close> over the items: every read is sent; the result is the list of checks, or
  the error of the first read that failed.
\<close>

fun availabilityChecks ::
  "string option \<Rightarrow> OrderItem list \<Rightarrow> world \<Rightarrow> (error + AvailabilityCheck list) \<times> world" where
  "availabilityChecks storeId [] w = (Inr [], w)"
| "availabilityChecks storeId (item # rest) w =
     (case check_item storeId item w of
        (r, w1) \<Rightarrow>
          (case availabilityChecks storeId rest w1 of
             (rs, w2) \<Rightarrow>
               (case r of
                  Inl e \<Rightarrow> (Inl e, w2)
                | Inr c \<Rightarrow> (case rs of Inl e \<Rightarrow> (Inl e, w2) | Inr cs \<Rightarrow> (Inr (c # cs), w2)))))"

text \<open>
  One \<open>Update\<close> of the transaction, on the table \<open>tbl\<close>: the condition
  \<open>(quantity_available - if_not_exists(quantity_reserved, :zero)) >= :qty\<close>, read
  arithmetically, and the \<open>SET\<close> clause. The condition fails where there is no item or no
  \<open>quantity_available\<close>.
\<close>

definition reserve_condition :: "(string \<rightharpoonup> InventoryItem) \<Rightarrow> string \<Rightarrow> int \<Rightarrow> bool" where
  "reserve_condition tbl storeSku qty =
     (case tbl storeSku of
        None \<Rightarrow> False
      | Some item \<Rightarrow>
          (case quantity_available item of
             None \<Rightarrow> False
           | Some a \<Rightarrow> qty \<le> a - (case quantity_reserved item of None \<Rightarrow> 0 | Some r \<Rightarrow> r)))"

definition reserve_update ::
  "string \<Rightarrow> (string \<rightharpoonup> InventoryItem) \<Rightarrow> string \<times> int \<Rightarrow> (string \<rightharpoonup> InventoryItem)" where
  "reserve_update now tbl u =
     (case tbl (fst u) of
        None \<Rightarrow> tbl
      | Some item \<Rightarrow>
          tbl(fst u \<mapsto> item\<lparr>quantity_reserved :=
                                 Some ((case quantity_reserved item of None \<Rightarrow> 0 | Some r \<Rightarrow> r) + snd u),
                               inv_updated_at := Some now\<rparr>))"

text \<open>
  \<open>executeTransaction\<close>: one \<open>TransactWriteCommand\<close>. The document client marshalls the
  quantity \<open>:qty\<close> of every operation before it sends the request. The table refuses a
  transaction without an operation, with more than 100 operations, or with two operations
  on one item; it cancels the transaction when a condition fails; otherwise every update
  is applied.
\<close>

definition executeTransaction :: "string \<Rightarrow> (string \<times> int) list \<Rightarrow> world \<Rightarrow> (error + unit) \<times> world" where
  "executeTransaction now transactItems w =
     (if \<not> list_all (\<lambda>u. marshalls_number (of_int (snd u))) transactItems
      then (Inl MarshallError, w)
      else
        (case take_fault w of
           (True, w1) \<Rightarrow> (Inl ServiceError, w1)
         | (False, w1) \<Rightarrow>
             if transactItems = [] \<or> 100 < length transactItems \<or> \<not> distinct (map fst transactItems)
             then (Inl ValidationException, w1)
             else if list_all (\<lambda>u. reserve_condition (inventory w1) (fst u) (snd u)) transactItems
             then (Inr (), w1\<lparr>inventory := foldl (reserve_update now) (inventory w1) transactItems\<rparr>)
             else (Inl TransactionCanceledException, w1)))"

definition reserve_catch :: "error \<Rightarrow> ReserveInventoryResponse" where
  "reserve_catch e =
     (if e = TransactionCanceledException
      then \<lparr>rr_success = False, rr_reservation_id = None, rr_failed_items = None,
            rr_error = Some (Text ''Inventory changed during reservation, please retry'')\<rparr>
      else \<lparr>rr_success = False, rr_reservation_id = None, rr_failed_items = None,
            rr_error = Some (String_of e)\<rparr>)"

definition handler_reserve_inventory ::
  "ReserveInventoryRequest \<Rightarrow> world \<Rightarrow> ReserveInventoryResponse \<times> world" where
  "handler_reserve_inventory event w =
     (case generateReservationId w of
        (reservationId, wa) \<Rightarrow>
          (case new_Date_toISOString wa of
             (now, wb) \<Rightarrow>
               (case calculateTTL 30 wb of
                  (ttl30, w0) \<Rightarrow>
                    (case ri_items event of
                       None \<Rightarrow> (reserve_catch TypeError, w0)
                     | Some its \<Rightarrow>
                         (case availabilityChecks (ri_store_id event) its w0 of
                            (Inl e, w1) \<Rightarrow> (reserve_catch e, w1)
                          | (Inr checks, w1) \<Rightarrow>
                              (let insufficientItems = filter (\<lambda>c. \<not> c_sufficient c) checks
                               in if 0 < length insufficientItems
                                  then (\<lparr>rr_success = False, rr_reservation_id = None,
                                         rr_failed_items =
                                           Some (map (\<lambda>i. \<lparr>f_sku = c_sku i, f_requested = c_requested i,
                                                            f_available = c_available i\<rparr>) insufficientItems),
                                         rr_error = Some (Text ''Insufficient inventory'')\<rparr>, w1)
                                  else
                                    (case executeTransaction now
                                            (map (\<lambda>item. (template (ri_store_id event) @ ''#'' @ sku item,
                                                           quantity item)) its) w1 of
                                       (Inl e, w2) \<Rightarrow> (reserve_catch e, w2)
                                     | (Inr _, w2) \<Rightarrow>
                                         (\<lparr>rr_success = True, rr_reservation_id = Some reservationId,
                                           rr_failed_items = None, rr_error = None\<rparr>, w2))))))))"

section \<open>Payment (order-processor/src/handlers/process-payment.ts)\<close>

record ProcessPaymentRequest =
  pp_order_id :: string
  pp_customer_id :: string
  pp_amount :: "rat option"

text \<open>
  The transaction id \<open>TXN-${Date.now()}-${Math.random()...}\<close> is kept as the two values it
  is printed from.
\<close>

record ProcessPaymentResponse =
  pr_success :: bool
  pr_transaction_id :: "(nat \<times> rat) option"
  pr_payment_state :: "PaymentState option"
  pr_error :: "ErrorText option"

definition simulatePayment :: "rat option \<Rightarrow> world \<Rightarrow> bool \<times> world" where
  "simulatePayment amount w =
     (let successRate = round_double (95 / 100)
      in case Math_random w of
           (random, w1) \<Rightarrow>
             (case amount of
                None \<Rightarrow> (random < successRate, w1)
              | Some a \<Rightarrow> if a \<le> 0 then (False, w1) else (random < successRate, w1)))"

text \<open>
  \<open>UpdateCommand\<close> on the by-ID table: \<open>SET payment_state = :state, updated_at = :now\<close>.
\<close>

definition update_order_by_id_payment ::
  "string \<Rightarrow> PaymentState \<Rightarrow> string \<Rightarrow> world \<Rightarrow> (error + unit) \<times> world" where
  "update_order_by_id_payment orderId paymentState now w =
     (case take_fault w of
        (True, w1) \<Rightarrow> (Inl ServiceError, w1)
      | (False, w1) \<Rightarrow>
          (let item = (case orders_by_id w1 orderId of
                         None \<Rightarrow> blank_order_by_id orderId
                       | Some item \<Rightarrow> item)
           in (Inr (), w1\<lparr>orders_by_id := (orders_by_id w1)(orderId \<mapsto>
                            item\<lparr>b_payment_state := Some paymentState, b_updated_at := Some now\<rparr>)\<rparr>)))"

definition handler_process_payment ::
  "ProcessPaymentRequest \<Rightarrow> world \<Rightarrow> ProcessPaymentResponse \<times> world" where
  "handler_process_payment event w =
     (case new_Date_toISOString w of
        (now, w0) \<Rightarrow>
          (case simulatePayment (pp_amount event) w0 of
             (paymentSuccess, w1) \<Rightarrow>
               (case Date_now w1 of
                  (ms, w2) \<Rightarrow>
                    (case Math_random w2 of
                       (suffix, w3) \<Rightarrow>
                         (let paymentState = (if paymentSuccess then PAY_CAPTURED else PAY_FAILED)
                          in case update_order_by_id_payment (pp_order_id event) paymentState now w3 of
                               (Inl e, w4) \<Rightarrow>
                                 (\<lparr>pr_success = False, pr_transaction_id = None,
                                   pr_payment_state = None,
                                   pr_error = Some (String_of e)\<rparr>, w4)
                             | (Inr _, w4) \<Rightarrow>
                                 (if paymentSuccess
                                  then (\<lparr>pr_success = True, pr_transaction_id = Some (ms, suffix),
                                         pr_payment_state = Some PAY_CAPTURED, pr_error = None\<rparr>, w4)
                                  else (\<lparr>pr_success = False, pr_transaction_id = None,
                                         pr_payment_state = Some PAY_FAILED,
                                         pr_error = Some (Text ''Payment declined'')\<rparr>, w4)))))))"

section \<open>The saga orchestrator (order-processor/src/handlers/process-order.ts)\<close>

datatype Payload =
    ReservePayload ReserveInventoryRequest
  | PaymentPayload ProcessPaymentRequest
  | NotifyPayload SendNotificationRequest

datatype Data =
    ReserveData ReserveInventoryResponse
  | PaymentData ProcessPaymentResponse
  | NoData

record InvokeResult =
  i_success :: bool
  i_data :: "Data option"
  i_error :: "ErrorText option"

text \<open>
  \<open>invokeFunction\<close>. The payload names the function: the reservation and the payment
  handler run on the world when invoked synchronously; an asynchronous invocation (the
  notification function, invocation type \<open>Event\<close>) is queued and nothing of it is
  awaited. A request to Lambda that fails is caught. A function error (the invoked
  function did not return: the model lets it end before it has done anything) gives
  \<open>success: false\<close>. In every other case the result is \<open>success: true\<close> with the function's
  own response as \<open>data\<close>, whatever that response says.
\<close>

definition function_name :: "Payload \<Rightarrow> string" where
  "function_name payload =
     (case payload of
        ReservePayload _ \<Rightarrow> ''RESERVE_INVENTORY_FN''
      | PaymentPayload _ \<Rightarrow> ''PROCESS_PAYMENT_FN''
      | NotifyPayload _ \<Rightarrow> ''SEND_NOTIFICATIONS_FN'')"

definition invokeFunction :: "Payload \<Rightarrow> bool \<Rightarrow> world \<Rightarrow> InvokeResult \<times> world" where
  "invokeFunction payload async w0 =
     (case take_fault (w0\<lparr>invoked := invoked w0 @ [function_name payload]\<rparr>) of
        (True, w1) \<Rightarrow> (\<lparr>i_success = False, i_data = None, i_error = Some (String_of ServiceError)\<rparr>, w1)
      | (False, w1) \<Rightarrow>
          if async
          then (\<lparr>i_success = True, i_data = None, i_error = None\<rparr>,
                (case payload of
                   NotifyPayload n \<Rightarrow> w1\<lparr>notifications := notifications w1 @ [n]\<rparr>
                 | _ \<Rightarrow> w1))
          else if shd (function_errors w1)
          then (\<lparr>i_success = False, i_data = None, i_error = Some (ErrorMessage_or ''Function error'')\<rparr>,
                w1\<lparr>function_errors := stl (function_errors w1)\<rparr>)
          else
            (let w2 = w1\<lparr>function_errors := stl (function_errors w1)\<rparr>
             in case payload of
                  ReservePayload r \<Rightarrow>
                    (case handler_reserve_inventory r w2 of
                       (resp, w3) \<Rightarrow> (\<lparr>i_success = True, i_data = Some (ReserveData resp), i_error = None\<rparr>, w3))
                | PaymentPayload p \<Rightarrow>
                    (case handler_process_payment p w2 of
                       (resp, w3) \<Rightarrow> (\<lparr>i_success = True, i_data = Some (PaymentData resp), i_error = None\<rparr>, w3))
                | NotifyPayload n \<Rightarrow>
                    (\<lparr>i_success = True, i_data = Some NoData, i_error = None\<rparr>,
                     w2\<lparr>notifications := notifications w2 @ [n]\<rparr>)))"

text \<open>\<open>failOrder\<close>: every error inside is caught and logged.\<close>

definition failOrder :: "OrderProcessingMessage \<Rightarrow> string \<Rightarrow> world \<Rightarrow> world" where
  "failOrder message reason w =
     (case getOrderById (m_order_id message) w of
        (Inl e, w1) \<Rightarrow> w1
      | (Inr found, w1) \<Rightarrow>
          (case (case found of
                   None \<Rightarrow> (Inr True, w1)
                 | Some order \<Rightarrow>
                     updateOrderStatus (m_customer_id message)
                       (template (b_order_ts order) @ ''#'' @ b_order_id order)
                       (m_order_id message) FAILED (Some PENDING) w1) of
             (Inl e, w2) \<Rightarrow> w2
           | (Inr _, w2) \<Rightarrow>
               snd (invokeFunction
                      (NotifyPayload \<lparr>n_order_id = m_order_id message,
                                      n_customer_id = m_customer_id message,
                                      n_status = FAILED, n_total = None, n_reason = Some reason\<rparr>)
                      True w2)))"

text \<open>
  A record of the queue: its message id and its body, \<open>None\<close> when \<open>JSON.parse\<close> throws on
  it. The body of the loop returns whether the record is reported as a batch item
  failure.
\<close>

record SQSRecord =
  messageId :: string
  sqs_body :: "OrderProcessingMessage option"

definition process_record :: "SQSRecord \<Rightarrow> world \<Rightarrow> bool \<times> world" where
  "process_record record w =
     (case sqs_body record of
        None \<Rightarrow> (True, w)
      | Some message \<Rightarrow>
          (case getOrderById (m_order_id message) w of
             (Inl e, w1) \<Rightarrow> (True, w1)
           | (Inr None, w1) \<Rightarrow> (False, w1)
           | (Inr (Some order), w1) \<Rightarrow>
               if b_status order \<noteq> Some PENDING then (False, w1)
               else
                 (case invokeFunction
                         (ReservePayload \<lparr>ri_order_id = m_order_id message,
                                          ri_customer_id = m_customer_id message,
                                          ri_store_id = b_store_id order,
                                          ri_items = b_items order\<rparr>) False w1 of
                    (inventoryResult, w2) \<Rightarrow>
                      if \<not> i_success inventoryResult
                      then (False, failOrder message ''Inventory reservation failed'' w2)
                      else
                        (case invokeFunction
                                (PaymentPayload \<lparr>pp_order_id = m_order_id message,
                                                 pp_customer_id = m_customer_id message,
                                                 pp_amount = b_total order\<rparr>) False w2 of
                           (paymentResult, w3) \<Rightarrow>
                             if \<not> i_success paymentResult
                             then (False, failOrder message ''Payment processing failed'' w3)
                             else
                               (case updateOrderStatus (m_customer_id message)
                                       (template (b_order_ts order) @ ''#'' @ b_order_id order)
                                       (m_order_id message) CONFIRMED (Some PENDING) w3 of
                                  (Inl e, w4) \<Rightarrow> (True, w4)
                                | (Inr updated, w4) \<Rightarrow>
                                    if \<not> updated then (True, w4)
                                    else
                                      (False,
                                       snd (invokeFunction
                                              (NotifyPayload \<lparr>n_order_id = m_order_id message,
                                                              n_customer_id = m_customer_id message,
                                                              n_status = CONFIRMED,
                                                              n_total = b_total order,
                                                              n_reason = None\<rparr>)
                                              True w4)))))))"

text \<open>The handler: the loop over the batch, collecting the item failures.\<close>

fun handler_process_order :: "SQSRecord list \<Rightarrow> world \<Rightarrow> string list \<times> world" where
  "handler_process_order [] w = ([], w)"
| "handler_process_order (record # records) w =
     (case process_record record w of
        (failed, w1) \<Rightarrow>
          (case handler_process_order records w1 of
             (batchItemFailures, w2) \<Rightarrow>
               ((if failed then [messageId record] else []) @ batchItemFailures, w2)))"

section \<open>The change event transformer (the handler of the orders table's stream)\<close>

datatype EventName = INSERT | MODIFY | REMOVE

record StreamRecord =
  NewImage :: "Order option"
  OldImage :: "Order option"

record DynamoDBRecord =
  eventID :: "string option"
  eventName :: "EventName option"
  dynamodb :: "StreamRecord option"

text \<open>The detail of an event, by its \<open>event_type\<close>, with the fields in the source's order.\<close>

datatype Detail =
    ORDER_CREATED "string option" string "string option" "string option"
      "OrderStatus option" "rat option" nat string
  | ORDER_STATUS_CHANGED "string option" string "string option" "string option"
      "OrderStatus option" "OrderStatus option" "rat option" string
  | ORDER_CONFIRMED "string option" string "string option" "string option" "rat option"
      "OrderItem list option" "Address option" string
  | ORDER_CANCELLED "string option" string "string option" "string option" "rat option" string
  | ORDER_SHIPPED "string option" string "string option" "Address option" string
  | PAYMENT_STATE_CHANGED "string option" string "PaymentState option" "PaymentState option"
      "rat option" string
  | ORDER_DELETED "string option" string string

record PutEventsRequestEntry =
  EventBusName :: string
  Source :: string
  DetailType :: string
  Time :: string
  Detail :: Detail

definition EVENT_SOURCE :: string where
  "EVENT_SOURCE = ''acme.orders''"

definition entry :: "string \<Rightarrow> string \<Rightarrow> string \<Rightarrow> Detail \<Rightarrow> PutEventsRequestEntry" where
  "entry bus timestamp detailType detail =
     \<lparr>EventBusName = bus, Source = EVENT_SOURCE, DetailType = detailType, Time = timestamp,
      Detail = detail\<rparr>"

text \<open>
  \<open>transformToDomainEvents\<close>, for the event bus \<open>bus\<close> (the environment variable
  \<open>EVENT_BUS_NAME\<close>) and the instant \<open>timestamp\<close> that \<open>new Date().toISOString()\<close> returns
  at its start.
\<close>

definition transformToDomainEvents ::
  "string \<Rightarrow> string \<Rightarrow> DynamoDBRecord \<Rightarrow> PutEventsRequestEntry list" where
  "transformToDomainEvents bus timestamp record =
     (case dynamodb record of
        None \<Rightarrow> []
      | Some images \<Rightarrow>
          (case eventName record of
             Some INSERT \<Rightarrow>
               (case NewImage images of
                  None \<Rightarrow> []
                | Some newImage \<Rightarrow>
                    [entry bus timestamp ''Order Created''
                       (ORDER_CREATED (order_id newImage) (customer_id newImage) (store_id newImage)
                          (county_id newImage) (status newImage) (total newImage)
                          (case items newImage of None \<Rightarrow> 0 | Some its \<Rightarrow> length its) timestamp)])
           | Some MODIFY \<Rightarrow>
               (case (NewImage images, OldImage images) of
                  (Some newImage, Some oldImage) \<Rightarrow>
                    (if status newImage \<noteq> status oldImage
                     then [entry bus timestamp ''Order Status Changed''
                             (ORDER_STATUS_CHANGED (order_id newImage) (customer_id newImage)
                                (store_id newImage) (county_id newImage) (status oldImage)
                                (status newImage) (total newImage) timestamp)]
                          @ (if status newImage = Some CONFIRMED
                             then [entry bus timestamp ''Order Confirmed''
                                     (ORDER_CONFIRMED (order_id newImage) (customer_id newImage)
                                        (store_id newImage) (county_id newImage) (total newImage)
                                        (items newImage) (shipping_address newImage) timestamp)]
                             else [])
                          @ (if status newImage = Some CANCELLED
                             then [entry bus timestamp ''Order Cancelled''
                                     (ORDER_CANCELLED (order_id newImage) (customer_id newImage)
                                        (store_id newImage) (county_id newImage) (total newImage)
                                        timestamp)]
                             else [])
                          @ (if status newImage = Some SHIPPED
                             then [entry bus timestamp ''Order Shipped''
                                     (ORDER_SHIPPED (order_id newImage) (customer_id newImage)
                                        (store_id newImage) (shipping_address newImage) timestamp)]
                             else [])
                     else [])
                    @ (if payment_state newImage \<noteq> payment_state oldImage
                       then [entry bus timestamp ''Payment State Changed''
                               (PAYMENT_STATE_CHANGED (order_id newImage) (customer_id newImage)
                                  (payment_state oldImage) (payment_state newImage)
                                  (total newImage) timestamp)]
                       else [])
                | _ \<Rightarrow> [])
           | Some REMOVE \<Rightarrow>
               (case OldImage images of
                  None \<Rightarrow> []
                | Some oldImage \<Rightarrow>
                    [entry bus timestamp ''Order Deleted''
                       (ORDER_DELETED (order_id oldImage) (customer_id oldImage) timestamp)])
           | None \<Rightarrow> []))"

section \<open>The totals as the specification states them\<close>

text \<open>
  The subtotal of the specification: the sum over the items of quantity times unit price,
  in exact arithmetic. The create handler's \<open>calc_subtotal\<close> is compared with it.
\<close>

definition spec_subtotal :: "CreateOrderItem list \<Rightarrow> rat" where
  "spec_subtotal its = (\<Sum>item\<leftarrow>its. of_int (ci_quantity item) * ci_unit_price item)"

section \<open>Example inputs\<close>

text \<open>
  A world with empty tables in which no request fails, and the request of the integration
  tests with the two line items of the end-to-end test.
\<close>

definition quiet_world :: world where
  "quiet_world =
     \<lparr>orders = Map.empty, orders_by_id = Map.empty, inventory = Map.empty, queue = [],
      notifications = [], invoked = [], faults = sconst False, function_errors = sconst False,
      ulids = ''01A'' ## ''01B'' ## sconst ''01C'',
      instants = sconst ''2024-01-15T10:00:00.000Z'',
      epochs = sconst 1705312800000, randoms = sconst (1 / 2)\<rparr>"

definition sample_request :: CreateOrderRequest where
  "sample_request =
     \<lparr>q_customer_id = ''CUST-001'', q_store_id = ''STORE-001'', q_county_id = ''COUNTY-001'',
      q_items = [\<lparr>ci_sku = ''WINE-001'', ci_name = ''Test Wine'', ci_quantity = 2, ci_unit_price = 25\<rparr>,
                 \<lparr>ci_sku = ''BEER-001'', ci_name = ''Test Beer'', ci_quantity = 6, ci_unit_price = 8\<rparr>],
      q_shipping_address = \<lparr>street = ''123 Test St'', city = ''Test City'', state = ''TX'', zip = ''12345''\<rparr>\<rparr>"

definition create_event :: "string \<Rightarrow> CreateOrderRequest \<Rightarrow> APIGatewayProxyEvent" where
  "create_event idempotencyKey request =
     \<lparr>headers = [''X-Idempotency-Key'' \<mapsto> idempotencyKey], pathParameters = Map.empty,
      event_body = Shaped request\<rparr>"

definition cancel_event :: "string \<Rightarrow> APIGatewayProxyEvent" where
  "cancel_event orderId =
     \<lparr>headers = Map.empty, pathParameters = [''order_id'' \<mapsto> orderId], event_body = NoBody\<rparr>"

text \<open>The order of the sample request with a given status, and a world that stores it:
  the primary record with status \<open>s\<close>, the by-ID projection with status \<open>s'\<close>.\<close>

definition sample_order :: "OrderStatus \<Rightarrow> Order" where
  "sample_order s =
     (build_order sample_request ''duplicate-key-123'' ''ORD-01A'' ''2024-01-15T10:00:00.000Z'')
       \<lparr>status := Some s\<rparr>"

definition stored_world :: "OrderStatus \<Rightarrow> OrderStatus \<Rightarrow> world" where
  "stored_world s s' =
     quiet_world
       \<lparr>orders := [(''CUST-001'', ''2024-01-15T10:00:00.000Z#ORD-01A'') \<mapsto> sample_order s],
        orders_by_id := [''ORD-01A'' \<mapsto> orderById_of (sample_order s') ''ORD-01A'']\<rparr>"

text \<open>A world in which the second request fails and every other one succeeds.\<close>

definition faulty_world :: world where
  "faulty_world = quiet_world\<lparr>faults := False ## True ## sconst False\<rparr>"

text \<open>An inventory with two stocked items, and requests against it.\<close>

definition stocked_world :: world where
  "stocked_world =
     quiet_world
       \<lparr>inventory :=
          [''STORE-001#WINE-001'' \<mapsto>
             \<lparr>store_sku = ''STORE-001#WINE-001'', quantity_available = Some 5,
              quantity_reserved = Some 3, inv_updated_at = None\<rparr>,
           ''STORE-001#BEER-001'' \<mapsto>
             \<lparr>store_sku = ''STORE-001#BEER-001'', quantity_available = Some 100,
              quantity_reserved = None, inv_updated_at = None\<rparr>]\<rparr>"

definition line_item :: "string \<Rightarrow> int \<Rightarrow> rat \<Rightarrow> OrderItem" where
  "line_item s q p =
     \<lparr>sku = s, name = s, quantity = q, unit_price = p, total_price = js_mul (of_int q) p\<rparr>"

definition reserve_request :: "OrderItem list \<Rightarrow> ReserveInventoryRequest" where
  "reserve_request its =
     \<lparr>ri_order_id = ''ORD-01A'', ri_customer_id = ''CUST-001'', ri_store_id = Some ''STORE-001'',
      ri_items = Some its\<rparr>"

text \<open>Inputs of the payment handler, the orchestrator and the transformer.\<close>

definition payment_request :: ProcessPaymentRequest where
  "payment_request =
     \<lparr>pp_order_id = ''ORD-01A'', pp_customer_id = ''CUST-001'', pp_amount = Some (10584 / 100)\<rparr>"

definition sample_message :: OrderProcessingMessage where
  "sample_message =
     \<lparr>m_order_id = ''ORD-01A'', m_customer_id = ''CUST-001'',
      m_order_ts_id = ''2024-01-15T10:00:00.000Z#ORD-01A'', m_action = PROCESS_ORDER,
      m_attempt = None, m_timestamp = ''2024-01-15T10:00:00.000Z''\<rparr>"

definition sample_record :: SQSRecord where
  "sample_record = \<lparr>messageId = ''msg-1'', sqs_body = Some sample_message\<rparr>"

definition modify_record :: "Order \<Rightarrow> Order \<Rightarrow> DynamoDBRecord" where
  "modify_record oldImage newImage =
     \<lparr>eventID = Some ''evt-1'', eventName = Some MODIFY,
      dynamodb = Some \<lparr>NewImage = Some newImage, OldImage = Some oldImage\<rparr>\<rparr>"

text \<open>
  The sample request with other items: two prices whose sum is not a double, every amount
  of the order below \<open>Number.MAX_SAFE_INTEGER\<close> (\<open>large_request\<close>); one item of a thirtieth
  that price (\<open>near_request\<close>); and two items, one with a price above
  \<open>Number.MAX_SAFE_INTEGER\<close> (\<open>big_request\<close>).
\<close>

definition priced_request :: "rat \<Rightarrow> rat \<Rightarrow> CreateOrderRequest" where
  "priced_request wine beer =
     sample_request
       \<lparr>q_items := [\<lparr>ci_sku = ''WINE-001'', ci_name = ''Test Wine'', ci_quantity = 1,
                     ci_unit_price = wine\<rparr>,
                    \<lparr>ci_sku = ''BEER-001'', ci_name = ''Test Beer'', ci_quantity = 1,
                     ci_unit_price = beer\<rparr>]\<rparr>"


definition near_request :: CreateOrderRequest where
  "near_request =
     sample_request
       \<lparr>q_items := [\<lparr>ci_sku = ''WINE-001'', ci_name = ''Test Wine'', ci_quantity = 1,
                     ci_unit_price = 140000000000000 + 25 / 100\<rparr>]\<rparr>"

definition big_request :: CreateOrderRequest where
  "big_request = priced_request 9007199254740992 1"

text \<open>The sample order stored as PENDING, with one bottle of WINE-001 left to reserve.\<close>

definition short_world :: world where
  "short_world =
     (stored_world PENDING PENDING)
       \<lparr>inventory :=
          [''STORE-001#WINE-001'' \<mapsto>
             \<lparr>store_sku = ''STORE-001#WINE-001'', quantity_available = Some 5,
              quantity_reserved = Some 4, inv_updated_at = None\<rparr>,
           ''STORE-001#BEER-001'' \<mapsto>
             \<lparr>store_sku = ''STORE-001#BEER-001'', quantity_available = Some 100,
              quantity_reserved = None, inv_updated_at = None\<rparr>]\<rparr>"

section \<open>Properties of the order repository\<close>

text \<open>
  C3. When an expected status is supplied and the orders table holds no item at the key
  whose status is the expected one (the item has another status, or none, or there is no
  item), \<open>updateOrderStatus\<close> writes neither table; if the table answers the request, the
  result is \<open>false\<close>, the stale-state signal, and not an error.
\<close>

theorem updateOrderStatus_stale:
  assumes "case orders w (customerId, orderTsId) of
             None \<Rightarrow> True
           | Some item \<Rightarrow> status item \<noteq> Some expected"
  shows "orders (snd (updateOrderStatus customerId orderTsId orderId newStatus (Some expected) w))
           = orders w
         \<and> orders_by_id (snd (updateOrderStatus customerId orderTsId orderId newStatus (Some expected) w))
           = orders_by_id w
         \<and> (\<not> shd (faults w) \<longrightarrow>
              fst (updateOrderStatus customerId orderTsId orderId newStatus (Some expected) w)
                = Inr False)"
  using assms
  by (auto simp: updateOrderStatus_def update_order_status_def new_Date_toISOString_def
        take_fault_def Let_def split: option.splits bool.splits)

theorem updateOrderStatus_stale_witness:
  "(case orders (stored_world CONFIRMED CONFIRMED) (''CUST-001'', ''2024-01-15T10:00:00.000Z#ORD-01A'') of
      None \<Rightarrow> True
    | Some item \<Rightarrow> status item \<noteq> Some PENDING)
   \<and> \<not> shd (faults (stored_world CONFIRMED CONFIRMED))
   \<and> orders (snd (updateOrderStatus ''CUST-001'' ''2024-01-15T10:00:00.000Z#ORD-01A'' ''ORD-01A''
                      CANCELLED (Some PENDING) (stored_world CONFIRMED CONFIRMED)))
       = orders (stored_world CONFIRMED CONFIRMED)
   \<and> orders_by_id (snd (updateOrderStatus ''CUST-001'' ''2024-01-15T10:00:00.000Z#ORD-01A'' ''ORD-01A''
                      CANCELLED (Some PENDING) (stored_world CONFIRMED CONFIRMED)))
       = orders_by_id (stored_world CONFIRMED CONFIRMED)
   \<and> fst (updateOrderStatus ''CUST-001'' ''2024-01-15T10:00:00.000Z#ORD-01A'' ''ORD-01A''
              CANCELLED (Some PENDING) (stored_world CONFIRMED CONFIRMED)) = Inr False"
proof -
  have stale: "case orders (stored_world CONFIRMED CONFIRMED)
                      (''CUST-001'', ''2024-01-15T10:00:00.000Z#ORD-01A'') of
                 None \<Rightarrow> True
               | Some item \<Rightarrow> status item \<noteq> Some PENDING"
    by (simp add: stored_world_def sample_order_def)
  have quiet: "\<not> shd (faults (stored_world CONFIRMED CONFIRMED))"
    by (simp add: stored_world_def quiet_world_def)
  from updateOrderStatus_stale [OF stale, of "''ORD-01A''" CANCELLED] stale quiet
  show ?thesis by blast
qed

section \<open>Properties of the cancel handler\<close>

lemma take_fault_quiet: "faults w = sconst False \<Longrightarrow> take_fault w = (False, w)"
  by (cases w) (simp add: take_fault_def)

lemma cancel_not_found:
  assumes "pathParameters event ''order_id'' = Some orderId" and "orderId \<noteq> []"
    and "faults w = sconst False" and "orders_by_id w orderId = None"
  shows "handler_cancel_order event w
           = (\<lparr>statusCode = 404, body = ErrorOrderBody ''Order not found'' orderId\<rparr>, w)"
  using assms
  by (simp add: handler_cancel_order_def getOrderById_def get_order_by_id_def take_fault_quiet)

lemma cancel_not_cancellable:
  assumes "pathParameters event ''order_id'' = Some orderId" and "orderId \<noteq> []"
    and "faults w = sconst False" and "orders_by_id w orderId = Some order"
    and "b_status order \<noteq> Some PENDING" and "b_status order \<noteq> Some CONFIRMED"
  shows "handler_cancel_order event w
           = (\<lparr>statusCode = 409,
               body = NotCancellableBody ''Order cannot be cancelled'' orderId (b_status order)
                        ''Order can only be cancelled when status is PENDING or CONFIRMED''\<rparr>, w)"
  using assms
  by (auto simp: handler_cancel_order_def getOrderById_def get_order_by_id_def take_fault_quiet
        CANCELLABLE_STATUSES_def)

lemma cancel_fragment:
  assumes "pathParameters event ''order_id'' = Some orderId" and "orderId \<noteq> []"
    and "faults w = sconst False" and "orders_by_id w orderId = Some order"
    and "b_status order = Some PENDING \<or> b_status order = Some CONFIRMED"
    and "b_customer_id order = None"
  shows "handler_cancel_order event w = (internal_server_error, w\<lparr>instants := stl (instants w)\<rparr>)"
  using assms
  by (auto simp: handler_cancel_order_def getOrderById_def get_order_by_id_def take_fault_quiet
        CANCELLABLE_STATUSES_def updateOrderStatus_of_def new_Date_toISOString_def)

lemma cancel_cancellable:
  assumes "pathParameters event ''order_id'' = Some orderId" and "orderId \<noteq> []"
    and "faults w = sconst False" and "orders_by_id w orderId = Some order"
    and "b_status order = Some PENDING \<or> b_status order = Some CONFIRMED"
    and "b_customer_id order = Some c"
    and "key = (c, template (b_order_ts order) @ ''#'' @ b_order_id order)"
  shows "handler_cancel_order event w =
           (case orders w key of
              None \<Rightarrow> (\<lparr>statusCode = 409, body = ErrorOrderBody ''Order status changed, please retry'' orderId\<rparr>,
                        w\<lparr>instants := stl (instants w)\<rparr>)
            | Some item \<Rightarrow>
                if status item = b_status order
                then (\<lparr>statusCode = 200, body = CancelledBody orderId CANCELLED ''Order cancelled successfully''\<rparr>,
                      w\<lparr>instants := stl (instants w),
                        orders := (orders w)(key \<mapsto> item\<lparr>status := Some CANCELLED, updated_at := Some (shd (instants w))\<rparr>),
                        orders_by_id := (orders_by_id w)(orderId \<mapsto> order\<lparr>b_status := Some CANCELLED, b_updated_at := Some (shd (instants w))\<rparr>)\<rparr>)
                else (\<lparr>statusCode = 409, body = ErrorOrderBody ''Order status changed, please retry'' orderId\<rparr>,
                        w\<lparr>instants := stl (instants w)\<rparr>))"
  using assms
  by (auto simp: handler_cancel_order_def getOrderById_def get_order_by_id_def take_fault_quiet
        CANCELLABLE_STATUSES_def updateOrderStatus_of_def updateOrderStatus_def
        update_order_status_def update_order_by_id_status_def new_Date_toISOString_def Let_def
        split: option.splits)

lemma stored_by_id:
  "orders_by_id (stored_world s s') ''ORD-01A'' = Some (orderById_of (sample_order s') ''ORD-01A'')"
  by (simp add: stored_world_def)

lemma stored_primary:
  "orders (stored_world s s') (''CUST-001'', ''2024-01-15T10:00:00.000Z#ORD-01A'') = Some (sample_order s)"
  by (simp add: stored_world_def)

lemma stored_quiet: "faults (stored_world s s') = sconst False"
  by (simp add: stored_world_def quiet_world_def)

lemma sample_projection:
  "b_status (orderById_of (sample_order s) k) = Some s"
  "b_customer_id (orderById_of (sample_order s) k) = Some ''CUST-001''"
  "template (b_order_ts (orderById_of (sample_order s) k)) @ ''#'' @ b_order_id (orderById_of (sample_order s) ''ORD-01A'')
     = ''2024-01-15T10:00:00.000Z#ORD-01A''"
  "status (sample_order s) = Some s"
  by (simp_all add: orderById_of_def sample_order_def build_order_def sample_request_def
        template_def Let_def)

text \<open>
  C4. \<open>DELETE /orders/{order_id}\<close> in a world where no request fails. The handler answers
  200 exactly when the by-ID projection exists with status PENDING or CONFIRMED and the
  primary record it points to still has that status; then both records end with status
  CANCELLED. A projection with any other status gives 409 with that status echoed and
  changes nothing. When the primary record no longer has the status the projection shows
  (the status changed in between, or the record is gone), the answer is 409 and neither
  table is written. Without a projection the answer is 404.
\<close>

theorem cancel_order_outcomes:
  assumes param: "pathParameters event ''order_id'' = Some orderId" "orderId \<noteq> []"
    and quiet: "faults w = sconst False"
  shows "(statusCode (fst (handler_cancel_order event w)) = 200 \<longleftrightarrow>
            (\<exists>order c item.
               orders_by_id w orderId = Some order
               \<and> (b_status order = Some PENDING \<or> b_status order = Some CONFIRMED)
               \<and> b_customer_id order = Some c
               \<and> orders w (c, template (b_order_ts order) @ ''#'' @ b_order_id order) = Some item
               \<and> status item = b_status order))
       \<and> (\<forall>order c item.
             orders_by_id w orderId = Some order
             \<and> (b_status order = Some PENDING \<or> b_status order = Some CONFIRMED)
             \<and> b_customer_id order = Some c
             \<and> orders w (c, template (b_order_ts order) @ ''#'' @ b_order_id order) = Some item
             \<and> status item = b_status order \<longrightarrow>
             body (fst (handler_cancel_order event w))
               = CancelledBody orderId CANCELLED ''Order cancelled successfully''
             \<and> map_option status
                  (orders (snd (handler_cancel_order event w))
                     (c, template (b_order_ts order) @ ''#'' @ b_order_id order)) = Some (Some CANCELLED)
             \<and> map_option b_status (orders_by_id (snd (handler_cancel_order event w)) orderId)
                  = Some (Some CANCELLED))
       \<and> (\<forall>order.
             orders_by_id w orderId = Some order
             \<and> b_status order \<noteq> Some PENDING \<and> b_status order \<noteq> Some CONFIRMED \<longrightarrow>
             handler_cancel_order event w
               = (\<lparr>statusCode = 409,
                   body = NotCancellableBody ''Order cannot be cancelled'' orderId (b_status order)
                            ''Order can only be cancelled when status is PENDING or CONFIRMED''\<rparr>, w))
       \<and> (\<forall>order c.
             orders_by_id w orderId = Some order
             \<and> (b_status order = Some PENDING \<or> b_status order = Some CONFIRMED)
             \<and> b_customer_id order = Some c
             \<and> map_option status (orders w (c, template (b_order_ts order) @ ''#'' @ b_order_id order))
                 \<noteq> Some (b_status order) \<longrightarrow>
             fst (handler_cancel_order event w)
               = \<lparr>statusCode = 409, body = ErrorOrderBody ''Order status changed, please retry'' orderId\<rparr>
             \<and> orders (snd (handler_cancel_order event w)) = orders w
             \<and> orders_by_id (snd (handler_cancel_order event w)) = orders_by_id w)
       \<and> (orders_by_id w orderId = None \<longrightarrow>
             handler_cancel_order event w
               = (\<lparr>statusCode = 404, body = ErrorOrderBody ''Order not found'' orderId\<rparr>, w))"
proof (intro conjI allI impI)
  show "orders_by_id w orderId = None \<Longrightarrow>
        handler_cancel_order event w
          = (\<lparr>statusCode = 404, body = ErrorOrderBody ''Order not found'' orderId\<rparr>, w)"
    by (rule cancel_not_found [OF param quiet])
next
  fix order
  assume "orders_by_id w orderId = Some order
          \<and> b_status order \<noteq> Some PENDING \<and> b_status order \<noteq> Some CONFIRMED"
  then show "handler_cancel_order event w
               = (\<lparr>statusCode = 409,
                   body = NotCancellableBody ''Order cannot be cancelled'' orderId (b_status order)
                            ''Order can only be cancelled when status is PENDING or CONFIRMED''\<rparr>, w)"
    using cancel_not_cancellable [OF param quiet] by blast
next
  fix order c item
  assume h: "orders_by_id w orderId = Some order
             \<and> (b_status order = Some PENDING \<or> b_status order = Some CONFIRMED)
             \<and> b_customer_id order = Some c
             \<and> orders w (c, template (b_order_ts order) @ ''#'' @ b_order_id order) = Some item
             \<and> status item = b_status order"
  then have eq: "handler_cancel_order event w =
      (\<lparr>statusCode = 200, body = CancelledBody orderId CANCELLED ''Order cancelled successfully''\<rparr>,
       w\<lparr>instants := stl (instants w),
         orders := (orders w)((c, template (b_order_ts order) @ ''#'' @ b_order_id order) \<mapsto>
                      item\<lparr>status := Some CANCELLED, updated_at := Some (shd (instants w))\<rparr>),
         orders_by_id := (orders_by_id w)(orderId \<mapsto>
                      order\<lparr>b_status := Some CANCELLED, b_updated_at := Some (shd (instants w))\<rparr>)\<rparr>)"
    using cancel_cancellable [OF param quiet, of order c] by simp
  show "body (fst (handler_cancel_order event w))
          = CancelledBody orderId CANCELLED ''Order cancelled successfully''"
    by (simp add: eq)
  show "map_option status
          (orders (snd (handler_cancel_order event w))
             (c, template (b_order_ts order) @ ''#'' @ b_order_id order)) = Some (Some CANCELLED)"
    by (simp add: eq)
  show "map_option b_status (orders_by_id (snd (handler_cancel_order event w)) orderId)
          = Some (Some CANCELLED)"
    by (simp add: eq)
next
  fix order c
  assume h: "orders_by_id w orderId = Some order
             \<and> (b_status order = Some PENDING \<or> b_status order = Some CONFIRMED)
             \<and> b_customer_id order = Some c
             \<and> map_option status (orders w (c, template (b_order_ts order) @ ''#'' @ b_order_id order))
                 \<noteq> Some (b_status order)"
  then have eq: "handler_cancel_order event w =
      (\<lparr>statusCode = 409, body = ErrorOrderBody ''Order status changed, please retry'' orderId\<rparr>,
       w\<lparr>instants := stl (instants w)\<rparr>)"
    using cancel_cancellable [OF param quiet, of order c] by (auto split: option.splits)
  show "fst (handler_cancel_order event w)
          = \<lparr>statusCode = 409, body = ErrorOrderBody ''Order status changed, please retry'' orderId\<rparr>"
    by (simp add: eq)
  show "orders (snd (handler_cancel_order event w)) = orders w" by (simp add: eq)
  show "orders_by_id (snd (handler_cancel_order event w)) = orders_by_id w" by (simp add: eq)
next
  show "statusCode (fst (handler_cancel_order event w)) = 200 \<longleftrightarrow>
            (\<exists>order c item.
               orders_by_id w orderId = Some order
               \<and> (b_status order = Some PENDING \<or> b_status order = Some CONFIRMED)
               \<and> b_customer_id order = Some c
               \<and> orders w (c, template (b_order_ts order) @ ''#'' @ b_order_id order) = Some item
               \<and> status item = b_status order)"
  proof (cases "orders_by_id w orderId")
    case None
    then show ?thesis using cancel_not_found [OF param quiet] by simp
  next
    case (Some order)
    show ?thesis
    proof (cases "b_status order = Some PENDING \<or> b_status order = Some CONFIRMED")
      case False
      then show ?thesis using Some cancel_not_cancellable [OF param quiet Some] by auto
    next
      case True
      show ?thesis
      proof (cases "b_customer_id order")
        case None
        then show ?thesis
          using Some True cancel_fragment [OF param quiet Some True]
          by (simp add: internal_server_error_def)
      next
        case c: (Some c)
        show ?thesis
          using Some True c cancel_cancellable [OF param quiet Some True c refl]
          by (auto split: option.splits)
      qed
    qed
  qed
qed

theorem cancel_order_outcomes_witness:
  "pathParameters (cancel_event ''ORD-01A'') ''order_id'' = Some ''ORD-01A''
   \<and> ''ORD-01A'' \<noteq> []
   \<and> faults (stored_world PENDING PENDING) = sconst False
   \<and> statusCode (fst (handler_cancel_order (cancel_event ''ORD-01A'') (stored_world PENDING PENDING))) = 200
   \<and> map_option status
        (orders (snd (handler_cancel_order (cancel_event ''ORD-01A'') (stored_world PENDING PENDING)))
           (''CUST-001'', ''2024-01-15T10:00:00.000Z#ORD-01A'')) = Some (Some CANCELLED)
   \<and> map_option b_status
        (orders_by_id (snd (handler_cancel_order (cancel_event ''ORD-01A'') (stored_world PENDING PENDING)))
           ''ORD-01A'') = Some (Some CANCELLED)
   \<and> handler_cancel_order (cancel_event ''ORD-01A'') (stored_world SHIPPED SHIPPED)
       = (\<lparr>statusCode = 409,
           body = NotCancellableBody ''Order cannot be cancelled'' ''ORD-01A'' (Some SHIPPED)
                    ''Order can only be cancelled when status is PENDING or CONFIRMED''\<rparr>,
          stored_world SHIPPED SHIPPED)
   \<and> fst (handler_cancel_order (cancel_event ''ORD-01A'') (stored_world CONFIRMED PENDING))
       = \<lparr>statusCode = 409, body = ErrorOrderBody ''Order status changed, please retry'' ''ORD-01A''\<rparr>
   \<and> handler_cancel_order (cancel_event ''ORD-01A'') quiet_world
       = (\<lparr>statusCode = 404, body = ErrorOrderBody ''Order not found'' ''ORD-01A''\<rparr>, quiet_world)"
proof -
  have p: "pathParameters (cancel_event ''ORD-01A'') ''order_id'' = Some ''ORD-01A''"
    by (simp add: cancel_event_def)
  have n: "''ORD-01A'' \<noteq> []" by simp
  have q0: "faults quiet_world = sconst False" by (simp add: quiet_world_def)
  have e0: "orders_by_id quiet_world ''ORD-01A'' = None" by (simp add: quiet_world_def)
  note a = cancel_order_outcomes [OF p n stored_quiet [of PENDING PENDING]]
  note b = cancel_order_outcomes [OF p n stored_quiet [of SHIPPED SHIPPED]]
  note c = cancel_order_outcomes [OF p n stored_quiet [of CONFIRMED PENDING]]
  note d = cancel_order_outcomes [OF p n q0]
  have 1: "statusCode (fst (handler_cancel_order (cancel_event ''ORD-01A'') (stored_world PENDING PENDING))) = 200"
    using a stored_by_id [of PENDING PENDING] stored_primary [of PENDING PENDING]
      sample_projection [of PENDING] by auto
  have 2: "map_option status
        (orders (snd (handler_cancel_order (cancel_event ''ORD-01A'') (stored_world PENDING PENDING)))
           (''CUST-001'', ''2024-01-15T10:00:00.000Z#ORD-01A'')) = Some (Some CANCELLED)
     \<and> map_option b_status
        (orders_by_id (snd (handler_cancel_order (cancel_event ''ORD-01A'') (stored_world PENDING PENDING)))
           ''ORD-01A'') = Some (Some CANCELLED)"
    using a stored_by_id [of PENDING PENDING] stored_primary [of PENDING PENDING]
      sample_projection [of PENDING] by auto
  have 3: "handler_cancel_order (cancel_event ''ORD-01A'') (stored_world SHIPPED SHIPPED)
       = (\<lparr>statusCode = 409,
           body = NotCancellableBody ''Order cannot be cancelled'' ''ORD-01A'' (Some SHIPPED)
                    ''Order can only be cancelled when status is PENDING or CONFIRMED''\<rparr>,
          stored_world SHIPPED SHIPPED)"
    using b stored_by_id [of SHIPPED SHIPPED] sample_projection [of SHIPPED] by auto
  have 4: "fst (handler_cancel_order (cancel_event ''ORD-01A'') (stored_world CONFIRMED PENDING))
       = \<lparr>statusCode = 409, body = ErrorOrderBody ''Order status changed, please retry'' ''ORD-01A''\<rparr>"
    using c stored_by_id [of CONFIRMED PENDING] stored_primary [of CONFIRMED PENDING]
      sample_projection [of PENDING] sample_projection [of CONFIRMED] by auto
  have 5: "handler_cancel_order (cancel_event ''ORD-01A'') quiet_world
       = (\<lparr>statusCode = 404, body = ErrorOrderBody ''Order not found'' ''ORD-01A''\<rparr>, quiet_world)"
    using d e0 by blast
  from p n stored_quiet [of PENDING PENDING] 1 2 3 4 5 show ?thesis by blast
qed

section \<open>Properties of order creation\<close>

text \<open>The projection holds the numbers of the order, but for its \<open>ttl\<close>.\<close>

lemma marshalls_projection:
  "marshalls_order order \<Longrightarrow> marshalls_order_by_id (orderById_of order k)"
  by (simp add: marshalls_order_def marshalls_order_by_id_def orderById_of_def)

lemma createOrder_duplicate:
  assumes "orders w (customer_id order, order_ts_id order) = Some existing"
    and "faults w = sconst False" and "marshalls_order order"
  shows "createOrder order w = (Inr (False, existing), w)"
  using assms
  by (simp add: createOrder_def put_order_if_absent_def createOrder_catch_def
        getOrderByCustomer_def get_order_def take_fault_quiet)

lemma createOrder_fresh:
  assumes "orders w (customer_id order, order_ts_id order) = None"
    and "faults w = sconst False" and "order_id order = Some k" and "marshalls_order order"
  shows "createOrder order w
           = (Inr (True, order),
              w\<lparr>orders := (orders w)((customer_id order, order_ts_id order) \<mapsto> order),
                orders_by_id := (orders_by_id w)(k \<mapsto> orderById_of order k)\<rparr>)"
  using assms marshalls_projection [of order k]
  by (simp add: createOrder_def put_order_if_absent_def put_order_by_id_def take_fault_quiet)

lemma createOrder_projection_fails:
  assumes "orders w (customer_id order, order_ts_id order) = None"
    and "faults w = False ## True ## fs" and "marshalls_order order"
  shows "createOrder order w
           = (Inl ServiceError,
              w\<lparr>faults := fs,
                orders := (orders w)((customer_id order, order_ts_id order) \<mapsto> order)\<rparr>)"
  using assms marshalls_projection [of order]
  by (simp add: createOrder_def put_order_if_absent_def put_order_by_id_def take_fault_def
        createOrder_catch_def)

text \<open>An order with a number the document client refuses: nothing is sent.\<close>

lemma createOrder_refused:
  assumes "\<not> marshalls_order order"
  shows "createOrder order w = (Inl MarshallError, w)"
  using assms by (simp add: createOrder_def put_order_if_absent_def createOrder_catch_def)

lemma build_order_sel [simp]:
  "customer_id (build_order request key orderId orderTs) = q_customer_id request"
  "order_ts_id (build_order request key orderId orderTs) = orderTs @ ''#'' @ orderId"
  "order_id (build_order request key orderId orderTs) = Some orderId"
  "status (build_order request key orderId orderTs) = Some PENDING"
  "idempotency_key (build_order request key orderId orderTs) = Some key"
  by (simp_all add: build_order_def Let_def)

text \<open>The create handler up to the call of \<open>createOrder\<close>, for a request that passes the
  header check and the validation.\<close>

lemma handler_create_order_valid:
  assumes "headers event ''X-Idempotency-Key'' = Some key" and "key \<noteq> []"
    and "event_body event = Shaped request" and "request_issues request = []"
  shows "handler_create_order event w =
           (let orderId = ''ORD-'' @ shd (ulids w); orderTs = shd (instants w)
            in case createOrder (build_order request key orderId orderTs)
                      (w\<lparr>ulids := stl (ulids w), instants := stl (instants w)\<rparr>) of
                 (Inl e, w3) \<Rightarrow> (internal_server_error, w3)
               | (Inr (created, order), w3) \<Rightarrow>
                   (if created
                    then (case sendOrderMessage
                                 \<lparr>m_order_id = orderId, m_customer_id = q_customer_id request,
                                  m_order_ts_id = orderTs @ ''#'' @ orderId, m_action = PROCESS_ORDER,
                                  m_attempt = None, m_timestamp = orderTs\<rparr> w3 of
                            (Inl e, w4) \<Rightarrow> (internal_server_error, w4)
                          | (Inr _, w4) \<Rightarrow>
                              (\<lparr>statusCode = 201, body = OrderBody (order_response True order)\<rparr>, w4))
                    else (\<lparr>statusCode = 200, body = OrderBody (order_response False order)\<rparr>, w3)))"
  using assms
  by (simp add: handler_create_order_def parseAndValidateBody_def generateOrderId_def ulid_def
        new_Date_toISOString_def Let_def split: prod.splits sum.splits)

lemma handler_create_order_fresh:
  assumes "headers event ''X-Idempotency-Key'' = Some key" and "key \<noteq> []"
    and "event_body event = Shaped request" and "request_issues request = []"
    and "faults w = sconst False"
    and "orders w (q_customer_id request, shd (instants w) @ ''#'' @ ''ORD-'' @ shd (ulids w)) = None"
    and "order = build_order request key (''ORD-'' @ shd (ulids w)) (shd (instants w))"
    and "marshalls_order order"
  shows "handler_create_order event w =
           (\<lparr>statusCode = 201, body = OrderBody (order_response True order)\<rparr>,
            w\<lparr>ulids := stl (ulids w), instants := stl (instants w),
              orders := (orders w)((q_customer_id request, shd (instants w) @ ''#'' @ ''ORD-'' @ shd (ulids w)) \<mapsto> order),
              orders_by_id := (orders_by_id w)(''ORD-'' @ shd (ulids w) \<mapsto> orderById_of order (''ORD-'' @ shd (ulids w))),
              queue := queue w @ [\<lparr>m_order_id = ''ORD-'' @ shd (ulids w), m_customer_id = q_customer_id request,
                                  m_order_ts_id = shd (instants w) @ ''#'' @ ''ORD-'' @ shd (ulids w), m_action = PROCESS_ORDER,
                                  m_attempt = None, m_timestamp = shd (instants w)\<rparr>]\<rparr>)"
proof -
  let ?w0 = "w\<lparr>ulids := stl (ulids w), instants := stl (instants w)\<rparr>"
  have q: "faults ?w0 = sconst False" using assms(5) by simp
  have f: "orders ?w0 (customer_id order, order_ts_id order) = None" using assms(6,7) by simp
  have k: "order_id order = Some (''ORD-'' @ shd (ulids w))" using assms(7) by simp
  show ?thesis
    unfolding handler_create_order_valid [OF assms(1-4)] Let_def assms(7) [symmetric]
    using createOrder_fresh [OF f q k assms(8)] q assms(7)
    by (simp add: sendOrderMessage_def take_fault_quiet)
qed

lemma handler_create_order_refused:
  assumes "headers event ''X-Idempotency-Key'' = Some key" and "key \<noteq> []"
    and "event_body event = Shaped request" and "request_issues request = []"
    and "\<not> marshalls_order (build_order request key (''ORD-'' @ shd (ulids w)) (shd (instants w)))"
  shows "handler_create_order event w =
           (internal_server_error, w\<lparr>ulids := stl (ulids w), instants := stl (instants w)\<rparr>)"
  unfolding handler_create_order_valid [OF assms(1-4)] Let_def
  using createOrder_refused [OF assms(5)] by simp

lemma check_True [simp]: "check True f c = []"
  by (simp add: check_def)

lemma sample_request_valid: "request_issues sample_request = []"
  by (simp add: request_issues_def item_issues_def sample_request_def)

text \<open>The numbers of a built order are those of its line items and its three totals.\<close>

lemma marshalls_build_order:
  "marshalls_order (build_order request key orderId orderTs) =
     (list_all marshalls_item (itemsWithTotals (q_items request))
      \<and> marshalls_number (calc_subtotal (q_items request))
      \<and> marshalls_number (calc_tax (calc_subtotal (q_items request)))
      \<and> marshalls_number
            (calc_total (calc_subtotal (q_items request)) (calc_tax (calc_subtotal (q_items request)))))"
  by (simp add: marshalls_order_def marshalls_items_def marshalls_attribute_def build_order_def
        Let_def)

lemma sample_numbers:
  "list_all marshalls_item (itemsWithTotals (q_items sample_request))"
  "marshalls_number (calc_subtotal (q_items sample_request))"
  "marshalls_number (calc_tax (calc_subtotal (q_items sample_request)))"
  "marshalls_number
     (calc_total (calc_subtotal (q_items sample_request)) (calc_tax (calc_subtotal (q_items sample_request))))"
  by code_simp+

lemma sample_marshalls: "marshalls_order (build_order sample_request key orderId orderTs)"
  by (simp add: marshalls_build_order sample_numbers)

text \<open>
  C1. Two \<open>POST /orders\<close> requests with the same \<open>X-Idempotency-Key\<close> and the same valid
  body, handled one after the other. The handler takes the primary key from a fresh
  \<open>generateOrderId()\<close> and the clock, so the second request passes the guard of
  \<open>createOrder\<close> as the first did: both are answered 201, two orders carrying the same
  idempotency key are stored, and two work items are enqueued.
\<close>

theorem create_order_retry_stores_two:
  "statusCode (fst (handler_create_order (create_event ''duplicate-key-123'' sample_request) quiet_world)) = 201
   \<and> statusCode (fst (handler_create_order (create_event ''duplicate-key-123'' sample_request)
        (snd (handler_create_order (create_event ''duplicate-key-123'' sample_request) quiet_world)))) = 201
   \<and> map_option idempotency_key
        (orders (snd (handler_create_order (create_event ''duplicate-key-123'' sample_request)
           (snd (handler_create_order (create_event ''duplicate-key-123'' sample_request) quiet_world))))
           (''CUST-001'', ''2024-01-15T10:00:00.000Z#ORD-01A'')) = Some (Some ''duplicate-key-123'')
   \<and> map_option idempotency_key
        (orders (snd (handler_create_order (create_event ''duplicate-key-123'' sample_request)
           (snd (handler_create_order (create_event ''duplicate-key-123'' sample_request) quiet_world))))
           (''CUST-001'', ''2024-01-15T10:00:00.000Z#ORD-01B'')) = Some (Some ''duplicate-key-123'')
   \<and> map m_order_id
        (queue (snd (handler_create_order (create_event ''duplicate-key-123'' sample_request)
           (snd (handler_create_order (create_event ''duplicate-key-123'' sample_request) quiet_world)))))
       = [''ORD-01A'', ''ORD-01B'']"
proof -
  let ?ev = "create_event ''duplicate-key-123'' sample_request"
  have h: "headers ?ev ''X-Idempotency-Key'' = Some ''duplicate-key-123''" "''duplicate-key-123'' \<noteq> []"
    "event_body ?ev = Shaped sample_request"
    by (simp_all add: create_event_def)
  have c: "q_customer_id sample_request = ''CUST-001''" by (simp add: sample_request_def)
  have q: "faults quiet_world = sconst False" by (simp add: quiet_world_def)
  have f: "orders quiet_world (q_customer_id sample_request,
             shd (instants quiet_world) @ ''#'' @ ''ORD-'' @ shd (ulids quiet_world)) = None"
    by (simp add: quiet_world_def)
  note first = handler_create_order_fresh [OF h sample_request_valid q f refl sample_marshalls]
  let ?w1 = "snd (handler_create_order ?ev quiet_world)"
  have q1: "faults ?w1 = sconst False" unfolding first by (simp add: q)
  have u1: "shd (ulids ?w1) = ''01B''" "shd (instants ?w1) = ''2024-01-15T10:00:00.000Z''"
    "shd (ulids quiet_world) = ''01A''" "shd (instants quiet_world) = ''2024-01-15T10:00:00.000Z''"
    unfolding first by (simp_all add: quiet_world_def)
  have f1: "orders ?w1 (q_customer_id sample_request,
             shd (instants ?w1) @ ''#'' @ ''ORD-'' @ shd (ulids ?w1)) = None"
    unfolding u1 unfolding first by (simp add: quiet_world_def c)
  note second = handler_create_order_fresh [OF h sample_request_valid q1 f1 refl sample_marshalls]
  show ?thesis
    unfolding second u1 unfolding first u1 by (simp add: c quiet_world_def)
qed


lemma handler_create_order_projection_fails:
  assumes "headers event ''X-Idempotency-Key'' = Some key" and "key \<noteq> []"
    and "event_body event = Shaped request" and "request_issues request = []"
    and "orders w (q_customer_id request, shd (instants w) @ ''#'' @ ''ORD-'' @ shd (ulids w)) = None"
    and "faults w = False ## True ## fs"
    and "marshalls_order (build_order request key (''ORD-'' @ shd (ulids w)) (shd (instants w)))"
  shows "handler_create_order event w =
           (internal_server_error,
            w\<lparr>ulids := stl (ulids w), instants := stl (instants w), faults := fs,
              orders := (orders w)((q_customer_id request, shd (instants w) @ ''#'' @ ''ORD-'' @ shd (ulids w)) \<mapsto>
                           build_order request key (''ORD-'' @ shd (ulids w)) (shd (instants w)))\<rparr>)"
proof -
  let ?w0 = "w\<lparr>ulids := stl (ulids w), instants := stl (instants w)\<rparr>"
  let ?order = "build_order request key (''ORD-'' @ shd (ulids w)) (shd (instants w))"
  have q: "faults ?w0 = False ## True ## fs" using assms(6) by simp
  have f: "orders ?w0 (customer_id ?order, order_ts_id ?order) = None" using assms(5) by simp
  show ?thesis
    unfolding handler_create_order_valid [OF assms(1-4)] Let_def
    using createOrder_projection_fails [OF f q assms(7)] by simp
qed

text \<open>
  C7. A valid create request whose primary key is free and whose order holds no number the
  document client refuses, in a world where the write of the primary record succeeds and
  the write of the by-ID projection fails: \<open>createOrder\<close> throws the error of the second
  write, the handler answers 500, the primary record stays stored, the projection is not
  written and no work item is enqueued.
\<close>

theorem create_order_projection_failure_propagates:
  assumes "headers event ''X-Idempotency-Key'' = Some key" and "key \<noteq> []"
    and "event_body event = Shaped request" and "request_issues request = []"
    and "orders w (q_customer_id request, shd (instants w) @ ''#'' @ ''ORD-'' @ shd (ulids w)) = None"
    and "faults w = False ## True ## fs"
    and "marshalls_order (build_order request key (''ORD-'' @ shd (ulids w)) (shd (instants w)))"
  shows "fst (createOrder (build_order request key (''ORD-'' @ shd (ulids w)) (shd (instants w)))
                (w\<lparr>ulids := stl (ulids w), instants := stl (instants w)\<rparr>)) = Inl ServiceError
       \<and> fst (handler_create_order event w) = internal_server_error
       \<and> orders (snd (handler_create_order event w))
           = (orders w)((q_customer_id request, shd (instants w) @ ''#'' @ ''ORD-'' @ shd (ulids w)) \<mapsto>
                 build_order request key (''ORD-'' @ shd (ulids w)) (shd (instants w)))
       \<and> orders_by_id (snd (handler_create_order event w)) = orders_by_id w
       \<and> queue (snd (handler_create_order event w)) = queue w"
proof -
  let ?w0 = "w\<lparr>ulids := stl (ulids w), instants := stl (instants w)\<rparr>"
  let ?order = "build_order request key (''ORD-'' @ shd (ulids w)) (shd (instants w))"
  have q: "faults ?w0 = False ## True ## fs" using assms(6) by simp
  have f: "orders ?w0 (customer_id ?order, order_ts_id ?order) = None" using assms(5) by simp
  have "fst (createOrder ?order ?w0) = Inl ServiceError"
    using createOrder_projection_fails [OF f q assms(7)] by simp
  then show ?thesis
    by (simp add: handler_create_order_projection_fails [OF assms])
qed

lemma faulty_world_facts:
  "faults faulty_world = False ## True ## sconst False"
  "shd (ulids faulty_world) = ''01A''"
  "shd (instants faulty_world) = ''2024-01-15T10:00:00.000Z''"
  "orders faulty_world = Map.empty" "orders_by_id faulty_world = Map.empty"
  "queue faulty_world = []"
  by (simp_all add: faulty_world_def quiet_world_def)

lemma sample_event_facts:
  "headers (create_event ''duplicate-key-123'' sample_request) ''X-Idempotency-Key'' = Some ''duplicate-key-123''"
  "''duplicate-key-123'' \<noteq> []"
  "event_body (create_event ''duplicate-key-123'' sample_request) = Shaped sample_request"
  by (simp_all add: create_event_def)

lemma sample_customer: "q_customer_id sample_request = ''CUST-001''"
  by (simp add: sample_request_def)

text \<open>
  The sample request in the world whose second request fails: the create handler answers
  500 although the primary record is stored; neither the projection nor a work item is.
\<close>

theorem create_order_projection_failure_counterexample:
  "statusCode (fst (handler_create_order (create_event ''duplicate-key-123'' sample_request) faulty_world)) = 500
   \<and> map_option status
        (orders (snd (handler_create_order (create_event ''duplicate-key-123'' sample_request) faulty_world))
           (''CUST-001'', ''2024-01-15T10:00:00.000Z#ORD-01A'')) = Some (Some PENDING)
   \<and> orders_by_id (snd (handler_create_order (create_event ''duplicate-key-123'' sample_request) faulty_world))
        ''ORD-01A'' = None
   \<and> queue (snd (handler_create_order (create_event ''duplicate-key-123'' sample_request) faulty_world)) = []"
proof -
  have f: "orders faulty_world (q_customer_id sample_request,
             shd (instants faulty_world) @ ''#'' @ ''ORD-'' @ shd (ulids faulty_world)) = None"
    by (simp add: faulty_world_facts)
  show ?thesis
    unfolding handler_create_order_projection_fails
      [OF sample_event_facts sample_request_valid f faulty_world_facts(1) sample_marshalls]
    by (simp add: faulty_world_facts sample_customer internal_server_error_def)
qed

theorem create_order_projection_failure_propagates_witness:
  "headers (create_event ''duplicate-key-123'' sample_request) ''X-Idempotency-Key'' = Some ''duplicate-key-123''
   \<and> ''duplicate-key-123'' \<noteq> []
   \<and> event_body (create_event ''duplicate-key-123'' sample_request) = Shaped sample_request
   \<and> request_issues sample_request = []
   \<and> orders faulty_world (''CUST-001'', ''2024-01-15T10:00:00.000Z#ORD-01A'') = None
   \<and> faults faulty_world = False ## True ## sconst False
   \<and> marshalls_order
         (build_order sample_request ''duplicate-key-123'' ''ORD-01A'' ''2024-01-15T10:00:00.000Z'')
   \<and> fst (handler_create_order (create_event ''duplicate-key-123'' sample_request) faulty_world)
       = internal_server_error
   \<and> orders (snd (handler_create_order (create_event ''duplicate-key-123'' sample_request) faulty_world))
       = [(''CUST-001'', ''2024-01-15T10:00:00.000Z#ORD-01A'') \<mapsto>
            build_order sample_request ''duplicate-key-123'' ''ORD-01A'' ''2024-01-15T10:00:00.000Z'']
   \<and> orders_by_id (snd (handler_create_order (create_event ''duplicate-key-123'' sample_request) faulty_world))
       = Map.empty
   \<and> queue (snd (handler_create_order (create_event ''duplicate-key-123'' sample_request) faulty_world)) = []"
proof -
  have f: "orders faulty_world (q_customer_id sample_request,
             shd (instants faulty_world) @ ''#'' @ ''ORD-'' @ shd (ulids faulty_world)) = None"
    by (simp add: faulty_world_facts)
  from create_order_projection_failure_propagates
      [OF sample_event_facts sample_request_valid f faulty_world_facts(1) sample_marshalls]
  show ?thesis
    by (simp add: faulty_world_facts sample_customer sample_event_facts sample_request_valid
          sample_marshalls)
qed

section \<open>Properties of the inventory reservation\<close>

text \<open>What the availability check of an item is when its read succeeds.\<close>

lemma check_item_frame:
  "check_item storeId item w = (r, w') \<Longrightarrow>
     w' = w\<lparr>faults := stl (faults w)\<rparr>
     \<and> (shd (faults w) \<longrightarrow> r = Inl ServiceError)
     \<and> (\<not> shd (faults w) \<longrightarrow>
          r = Inr \<lparr>c_sku = sku item, c_store_sku = template storeId @ ''#'' @ sku item,
                   c_requested = quantity item,
                   c_available = available_quantity (inventory w (template storeId @ ''#'' @ sku item)),
                   c_sufficient = (quantity item
                      \<le> available_quantity (inventory w (template storeId @ ''#'' @ sku item)))\<rparr>)"
  by (auto simp: check_item_def get_inventory_def take_fault_def Let_def split: if_splits bool.splits)

lemma availabilityChecks_frame:
  "availabilityChecks storeId its w = (r, w') \<Longrightarrow>
     w' = w\<lparr>faults := sdrop (length its) (faults w)\<rparr>
     \<and> (\<forall>cs. r = Inr cs \<longrightarrow>
           cs = map (\<lambda>item. \<lparr>c_sku = sku item, c_store_sku = template storeId @ ''#'' @ sku item,
                   c_requested = quantity item,
                   c_available = available_quantity (inventory w (template storeId @ ''#'' @ sku item)),
                   c_sufficient = (quantity item
                      \<le> available_quantity (inventory w (template storeId @ ''#'' @ sku item)))\<rparr>) its)
     \<and> ((\<forall>n < length its. \<not> faults w !! n) \<longrightarrow> (\<exists>cs. r = Inr cs))"
proof (induction its arbitrary: w r w')
  case Nil
  then show ?case by (cases w) auto
next
  case (Cons item rest)
  obtain r1 w1 where c: "check_item storeId item w = (r1, w1)" by force
  obtain rs w2 where a: "availabilityChecks storeId rest w1 = (rs, w2)" by force
  note f = check_item_frame [OF c]
  note ih = Cons.IH [OF a]
  have w1: "w1 = w\<lparr>faults := stl (faults w)\<rparr>" using f by simp
  have w': "w' = w2" using Cons.prems c a by (auto split: sum.splits)
  have 1: "w' = w\<lparr>faults := sdrop (length (item # rest)) (faults w)\<rparr>"
    using ih w1 w' by simp
  have 2: "\<forall>cs. r = Inr cs \<longrightarrow>
           cs = map (\<lambda>item. \<lparr>c_sku = sku item, c_store_sku = template storeId @ ''#'' @ sku item,
                   c_requested = quantity item,
                   c_available = available_quantity (inventory w (template storeId @ ''#'' @ sku item)),
                   c_sufficient = (quantity item
                      \<le> available_quantity (inventory w (template storeId @ ''#'' @ sku item)))\<rparr>) (item # rest)"
    using Cons.prems c a f ih w1 by (auto split: sum.splits)
  have 3: "(\<forall>n < length (item # rest). \<not> faults w !! n) \<longrightarrow> (\<exists>cs. r = Inr cs)"
  proof
    assume q: "\<forall>n < length (item # rest). \<not> faults w !! n"
    have "0 < length (item # rest)" by simp
    with q have "\<not> faults w !! 0" by blast
    then have "\<not> shd (faults w)" by simp
    moreover have "\<forall>n < length rest. \<not> faults w1 !! n"
    proof (intro allI impI)
      fix n assume "n < length rest"
      then have "Suc n < length (item # rest)" by simp
      with q have "\<not> faults w !! Suc n" by blast
      then show "\<not> faults w1 !! n" by (simp add: w1)
    qed
    ultimately show "\<exists>cs. r = Inr cs"
      using Cons.prems c a f ih by (auto split: sum.splits)
  qed
  from 1 2 3 show ?case by blast
qed

lemma reserve_catch_fails [simp]: "\<not> rr_success (reserve_catch e)"
  by (simp add: reserve_catch_def)

text \<open>The reservation handler when the request names an item that the table cannot cover.\<close>

lemma handler_reserve_inventory_insufficient:
  assumes its: "ri_items event = Some its"
    and short: "\<exists>item \<in> set its.
                  available_quantity (inventory w (template (ri_store_id event) @ ''#'' @ sku item))
                    < quantity item"
  shows "\<not> rr_success (fst (handler_reserve_inventory event w))"
    and "inventory (snd (handler_reserve_inventory event w)) = inventory w"
    and "\<forall>n < length its. \<not> faults w !! n \<Longrightarrow>
         fst (handler_reserve_inventory event w) =
           \<lparr>rr_success = False, rr_reservation_id = None,
            rr_failed_items = Some
              (map (\<lambda>item. \<lparr>f_sku = sku item, f_requested = quantity item,
                              f_available = available_quantity
                                (inventory w (template (ri_store_id event) @ ''#'' @ sku item))\<rparr>)
                 (filter (\<lambda>item. available_quantity
                                (inventory w (template (ri_store_id event) @ ''#'' @ sku item))
                              < quantity item) its)),
            rr_error = Some (Text ''Insufficient inventory'')\<rparr>"
proof -
  let ?w0 = "w\<lparr>ulids := stl (ulids w), instants := stl (instants w), epochs := stl (epochs w)\<rparr>"
  let ?mk = "\<lambda>item. \<lparr>c_sku = sku item, c_store_sku = template (ri_store_id event) @ ''#'' @ sku item,
                   c_requested = quantity item,
                   c_available = available_quantity (inventory ?w0 (template (ri_store_id event) @ ''#'' @ sku item)),
                   c_sufficient = (quantity item
                      \<le> available_quantity (inventory ?w0 (template (ri_store_id event) @ ''#'' @ sku item)))\<rparr>"
  obtain r w1 where a: "availabilityChecks (ri_store_id event) its ?w0 = (r, w1)" by force
  note f = availabilityChecks_frame [OF a]
  have inv: "inventory w1 = inventory w" using f by simp
  have unfold: "handler_reserve_inventory event w =
      (case r of
         Inl e \<Rightarrow> (reserve_catch e, w1)
       | Inr checks \<Rightarrow>
           (let insufficientItems = filter (\<lambda>c. \<not> c_sufficient c) checks
            in if 0 < length insufficientItems
               then (\<lparr>rr_success = False, rr_reservation_id = None,
                      rr_failed_items =
                        Some (map (\<lambda>i. \<lparr>f_sku = c_sku i, f_requested = c_requested i,
                                         f_available = c_available i\<rparr>) insufficientItems),
                      rr_error = Some (Text ''Insufficient inventory'')\<rparr>, w1)
               else
                 (case executeTransaction (shd (instants w))
                         (map (\<lambda>item. (template (ri_store_id event) @ ''#'' @ sku item,
                                        quantity item)) its) w1 of
                    (Inl e, w2) \<Rightarrow> (reserve_catch e, w2)
                  | (Inr _, w2) \<Rightarrow>
                      (\<lparr>rr_success = True, rr_reservation_id = Some (''RES-'' @ shd (ulids w)),
                        rr_failed_items = None, rr_error = None\<rparr>, w2))))"
    using its a
    by (simp add: handler_reserve_inventory_def generateReservationId_def ulid_def
          new_Date_toISOString_def calculateTTL_def Date_now_def Let_def
          split: sum.splits prod.splits)
  have nonempty: "filter (\<lambda>c. \<not> c_sufficient c) (map ?mk its) \<noteq> []"
    using short by (fastforce simp: filter_empty_conv not_le)
  show "\<not> rr_success (fst (handler_reserve_inventory event w))"
    using f nonempty unfolding unfold by (cases r) (auto simp: Let_def)
  show "inventory (snd (handler_reserve_inventory event w)) = inventory w"
    using f nonempty inv unfolding unfold by (cases r) (auto simp: Let_def)
  show "fst (handler_reserve_inventory event w) =
           \<lparr>rr_success = False, rr_reservation_id = None,
            rr_failed_items = Some
              (map (\<lambda>item. \<lparr>f_sku = sku item, f_requested = quantity item,
                              f_available = available_quantity
                                (inventory w (template (ri_store_id event) @ ''#'' @ sku item))\<rparr>)
                 (filter (\<lambda>item. available_quantity
                                (inventory w (template (ri_store_id event) @ ''#'' @ sku item))
                              < quantity item) its)),
            rr_error = Some (Text ''Insufficient inventory'')\<rparr>"
    if q: "\<forall>n < length its. \<not> faults w !! n"
  proof -
    have "\<forall>n < length its. \<not> faults ?w0 !! n" using q by simp
    then obtain cs where r: "r = Inr cs" using f by blast
    then have cs: "cs = map ?mk its" using f by blast
    have flt: "filter (\<lambda>c. \<not> c_sufficient c) (map ?mk its)
                 = map ?mk (filter (\<lambda>item. available_quantity
                                (inventory w (template (ri_store_id event) @ ''#'' @ sku item))
                              < quantity item) its)"
      by (simp add: filter_map comp_def not_le)
    show ?thesis
      unfolding unfold r cs using nonempty
      by (simp add: Let_def filter_map comp_def not_le)
  qed
qed

text \<open>
  C2. A reservation request in which at least one item asks for more than is available
  (\<open>quantity_available\<close> minus \<open>quantity_reserved\<close> of its \<open>storeId#sku\<close> record). The handler
  answers \<open>success: false\<close> and leaves the inventory table as it was, whatever the
  environment does; when the reads of the availability check succeed, the answer lists
  exactly the insufficient items, each with its requested and its available quantity.
\<close>

theorem reserve_all_or_nothing:
  assumes "ri_items event = Some its"
    and "\<exists>item \<in> set its.
           available_quantity (inventory w (template (ri_store_id event) @ ''#'' @ sku item))
             < quantity item"
  shows "\<not> rr_success (fst (handler_reserve_inventory event w))
       \<and> inventory (snd (handler_reserve_inventory event w)) = inventory w
       \<and> ((\<forall>n < length its. \<not> faults w !! n) \<longrightarrow>
            fst (handler_reserve_inventory event w) =
              \<lparr>rr_success = False, rr_reservation_id = None,
               rr_failed_items = Some
                 (map (\<lambda>item. \<lparr>f_sku = sku item, f_requested = quantity item,
                                 f_available = available_quantity
                                   (inventory w (template (ri_store_id event) @ ''#'' @ sku item))\<rparr>)
                    (filter (\<lambda>item. available_quantity
                                   (inventory w (template (ri_store_id event) @ ''#'' @ sku item))
                                 < quantity item) its)),
               rr_error = Some (Text ''Insufficient inventory'')\<rparr>)"
  using handler_reserve_inventory_insufficient [OF assms] by blast

lemma stocked_world_facts:
  "inventory stocked_world ''STORE-001#WINE-001''
     = Some \<lparr>store_sku = ''STORE-001#WINE-001'', quantity_available = Some 5,
             quantity_reserved = Some 3, inv_updated_at = None\<rparr>"
  "inventory stocked_world ''STORE-001#BEER-001''
     = Some \<lparr>store_sku = ''STORE-001#BEER-001'', quantity_available = Some 100,
             quantity_reserved = None, inv_updated_at = None\<rparr>"
  "inventory stocked_world ''STORE-001#GIN-404'' = None"
  "faults stocked_world !! n = False"
  by (simp_all add: stocked_world_def quiet_world_def)

lemma reserve_request_facts:
  "ri_items (reserve_request its) = Some its"
  "template (ri_store_id (reserve_request its)) = ''STORE-001''"
  by (simp_all add: reserve_request_def template_def)

lemma line_item_facts [simp]:
  "sku (line_item s q p) = s" "quantity (line_item s q p) = q"
  by (simp_all add: line_item_def)

theorem reserve_all_or_nothing_witness:
  "ri_items (reserve_request [line_item ''WINE-001'' 10 25, line_item ''BEER-001'' 6 8])
     = Some [line_item ''WINE-001'' 10 25, line_item ''BEER-001'' 6 8]
   \<and> available_quantity (inventory stocked_world ''STORE-001#WINE-001'') = 2
   \<and> available_quantity (inventory stocked_world ''STORE-001#BEER-001'') = 100
   \<and> fst (handler_reserve_inventory
             (reserve_request [line_item ''WINE-001'' 10 25, line_item ''BEER-001'' 6 8]) stocked_world)
       = \<lparr>rr_success = False, rr_reservation_id = None,
          rr_failed_items = Some [\<lparr>f_sku = ''WINE-001'', f_requested = 10, f_available = 2\<rparr>],
          rr_error = Some (Text ''Insufficient inventory'')\<rparr>
   \<and> inventory (snd (handler_reserve_inventory
             (reserve_request [line_item ''WINE-001'' 10 25, line_item ''BEER-001'' 6 8]) stocked_world))
       = inventory stocked_world"
proof -
  let ?its = "[line_item ''WINE-001'' 10 25, line_item ''BEER-001'' 6 8]"
  have a: "available_quantity (inventory stocked_world ''STORE-001#WINE-001'') = 2"
    "available_quantity (inventory stocked_world ''STORE-001#BEER-001'') = 100"
    by (simp_all add: stocked_world_facts available_quantity_def)
  have short: "\<exists>item \<in> set ?its.
           available_quantity (inventory stocked_world
              (template (ri_store_id (reserve_request ?its)) @ ''#'' @ sku item)) < quantity item"
    by (simp add: reserve_request_facts a)
  have q: "\<forall>n < length ?its. \<not> faults stocked_world !! n"
    by (simp add: stocked_world_facts)
  from reserve_all_or_nothing [OF reserve_request_facts(1) short] q a
  show ?thesis by (simp add: reserve_request_facts)
qed

text \<open>
  C9. A reservation request with an item of positive quantity whose \<open>storeId#sku\<close> key has
  no inventory record, the reads succeeding: the available quantity of that item is 0, the
  handler answers \<open>success: false\<close> with the error "Insufficient inventory" (a response,
  not an exception), the item is among the failed items with its requested quantity and
  available 0, and the inventory table is as it was (no record is created).
\<close>

theorem reserve_unknown_sku:
  assumes "ri_items event = Some its" and "item \<in> set its"
    and "inventory w (template (ri_store_id event) @ ''#'' @ sku item) = None"
    and "0 < quantity item"
    and "\<forall>n < length its. \<not> faults w !! n"
  shows "available_quantity (inventory w (template (ri_store_id event) @ ''#'' @ sku item)) = 0
       \<and> \<not> rr_success (fst (handler_reserve_inventory event w))
       \<and> rr_error (fst (handler_reserve_inventory event w)) = Some (Text ''Insufficient inventory'')
       \<and> (\<exists>failed. rr_failed_items (fst (handler_reserve_inventory event w)) = Some failed
             \<and> \<lparr>f_sku = sku item, f_requested = quantity item, f_available = 0\<rparr> \<in> set failed)
       \<and> inventory (snd (handler_reserve_inventory event w)) = inventory w"
proof -
  have zero: "available_quantity (inventory w (template (ri_store_id event) @ ''#'' @ sku item)) = 0"
    using assms(3) by (simp add: available_quantity_def)
  then have short: "\<exists>item \<in> set its.
      available_quantity (inventory w (template (ri_store_id event) @ ''#'' @ sku item)) < quantity item"
    using assms(2,4) by force
  note h = handler_reserve_inventory_insufficient [OF assms(1) short]
  have mem: "\<lparr>f_sku = sku item, f_requested = quantity item, f_available = 0\<rparr>
        \<in> set (map (\<lambda>item. \<lparr>f_sku = sku item, f_requested = quantity item,
                              f_available = available_quantity
                                (inventory w (template (ri_store_id event) @ ''#'' @ sku item))\<rparr>)
                 (filter (\<lambda>item. available_quantity
                                (inventory w (template (ri_store_id event) @ ''#'' @ sku item))
                              < quantity item) its))"
    using assms(2,4) zero by force
  show ?thesis
    using zero h(1,2) h(3) [OF assms(5)] mem by simp
qed

theorem reserve_unknown_sku_witness:
  "ri_items (reserve_request [line_item ''BEER-001'' 6 8, line_item ''GIN-404'' 1 30])
     = Some [line_item ''BEER-001'' 6 8, line_item ''GIN-404'' 1 30]
   \<and> inventory stocked_world ''STORE-001#GIN-404'' = None
   \<and> fst (handler_reserve_inventory
             (reserve_request [line_item ''BEER-001'' 6 8, line_item ''GIN-404'' 1 30]) stocked_world)
       = \<lparr>rr_success = False, rr_reservation_id = None,
          rr_failed_items = Some [\<lparr>f_sku = ''GIN-404'', f_requested = 1, f_available = 0\<rparr>],
          rr_error = Some (Text ''Insufficient inventory'')\<rparr>
   \<and> inventory (snd (handler_reserve_inventory
             (reserve_request [line_item ''BEER-001'' 6 8, line_item ''GIN-404'' 1 30]) stocked_world))
       = inventory stocked_world"
proof -
  let ?its = "[line_item ''BEER-001'' 6 8, line_item ''GIN-404'' 1 30]"
  let ?ev = "reserve_request ?its"
  have m: "line_item ''GIN-404'' 1 30 \<in> set ?its" by simp
  have n: "inventory stocked_world (template (ri_store_id ?ev) @ ''#'' @ sku (line_item ''GIN-404'' 1 30)) = None"
    by (simp add: reserve_request_facts stocked_world_facts)
  have p: "0 < quantity (line_item ''GIN-404'' 1 30)" by simp
  have q: "\<forall>n < length ?its. \<not> faults stocked_world !! n"
    by (simp add: stocked_world_facts)
  have a: "available_quantity (inventory stocked_world ''STORE-001#BEER-001'') = 100"
    by (simp add: stocked_world_facts available_quantity_def)
  have short: "\<exists>item \<in> set ?its.
           available_quantity (inventory stocked_world
              (template (ri_store_id ?ev) @ ''#'' @ sku item)) < quantity item"
    by (simp add: reserve_request_facts stocked_world_facts available_quantity_def)
  have full: "fst (handler_reserve_inventory ?ev stocked_world)
       = \<lparr>rr_success = False, rr_reservation_id = None,
          rr_failed_items = Some [\<lparr>f_sku = ''GIN-404'', f_requested = 1, f_available = 0\<rparr>],
          rr_error = Some (Text ''Insufficient inventory'')\<rparr>"
    using handler_reserve_inventory_insufficient(3) [OF reserve_request_facts(1) short q]
    by (simp add: reserve_request_facts stocked_world_facts available_quantity_def)
  from reserve_unknown_sku [OF reserve_request_facts(1) m n p q] full
  show ?thesis by (simp add: reserve_request_facts stocked_world_facts)
qed

section \<open>Properties of the payment handler, the orchestrator and the transformer\<close>

lemma success_rate: "(1 / 2 :: rat) < round_double (95 / 100)"
  by code_simp

lemma handler_process_payment_frame:
  "orders (snd (handler_process_payment event w)) = orders w"
  "inventory (snd (handler_process_payment event w)) = inventory w"
  "queue (snd (handler_process_payment event w)) = queue w"
  "orders_by_id (snd (handler_process_payment event w))
     = (orders_by_id w)(pp_order_id event :=
          orders_by_id (snd (handler_process_payment event w)) (pp_order_id event))"
  "orders_by_id (snd (handler_process_payment event w)) (pp_order_id event)
     = orders_by_id w (pp_order_id event)
   \<or> (\<exists>paymentState.
         orders_by_id (snd (handler_process_payment event w)) (pp_order_id event)
           = Some ((case orders_by_id w (pp_order_id event) of
                      None \<Rightarrow> blank_order_by_id (pp_order_id event)
                    | Some item \<Rightarrow> item)
                   \<lparr>b_payment_state := Some paymentState, b_updated_at := Some (shd (instants w))\<rparr>))"
  by (auto simp: handler_process_payment_def new_Date_toISOString_def simulatePayment_def
        Math_random_def Date_now_def update_order_by_id_payment_def take_fault_def Let_def
        split: option.splits bool.splits if_splits)

lemma handler_process_payment_captured:
  assumes "\<not> shd (faults w)" and "shd (randoms w) < round_double (95 / 100)"
    and "pp_amount event = Some a" and "0 < a"
  shows "orders_by_id (snd (handler_process_payment event w)) (pp_order_id event)
           = Some ((case orders_by_id w (pp_order_id event) of
                      None \<Rightarrow> blank_order_by_id (pp_order_id event)
                    | Some item \<Rightarrow> item)
                   \<lparr>b_payment_state := Some PAY_CAPTURED, b_updated_at := Some (shd (instants w))\<rparr>)"
  using assms
  by (simp add: handler_process_payment_def new_Date_toISOString_def simulatePayment_def
        Math_random_def Date_now_def update_order_by_id_payment_def take_fault_def Let_def)

text \<open>
  C10. The payment handler never writes the orders table. Of the by-ID table it writes at
  most the item of the request's order id, and what it writes is that item (or a new one
  holding only the key) with \<open>payment_state\<close> and \<open>updated_at\<close> set. So the primary
  record keeps its payment state and the two can differ: for the sample order, stored
  with PENDING in both tables, the projection ends CAPTURED and the primary record PENDING.
\<close>

theorem payment_writes_projection_only:
  "orders (snd (handler_process_payment event w)) = orders w
   \<and> orders_by_id (snd (handler_process_payment event w))
       = (orders_by_id w)(pp_order_id event :=
            orders_by_id (snd (handler_process_payment event w)) (pp_order_id event))
   \<and> (orders_by_id (snd (handler_process_payment event w)) (pp_order_id event)
         = orders_by_id w (pp_order_id event)
       \<or> (\<exists>paymentState.
             orders_by_id (snd (handler_process_payment event w)) (pp_order_id event)
               = Some ((case orders_by_id w (pp_order_id event) of
                          None \<Rightarrow> blank_order_by_id (pp_order_id event)
                        | Some item \<Rightarrow> item)
                       \<lparr>b_payment_state := Some paymentState,
                        b_updated_at := Some (shd (instants w))\<rparr>)))
   \<and> map_option payment_state
        (orders (snd (handler_process_payment payment_request (stored_world PENDING PENDING)))
           (''CUST-001'', ''2024-01-15T10:00:00.000Z#ORD-01A'')) = Some (Some PAY_PENDING)
   \<and> map_option b_payment_state
        (orders_by_id (snd (handler_process_payment payment_request (stored_world PENDING PENDING)))
           ''ORD-01A'') = Some (Some PAY_CAPTURED)"
proof -
  have q: "\<not> shd (faults (stored_world PENDING PENDING))"
    "shd (randoms (stored_world PENDING PENDING)) < round_double (95 / 100)"
    using success_rate by (simp_all add: stored_world_def quiet_world_def)
  have a: "pp_amount payment_request = Some (10584 / 100)" "(0::rat) < 10584 / 100"
    "pp_order_id payment_request = ''ORD-01A''"
    by (simp_all add: payment_request_def)
  have primary: "map_option payment_state
        (orders (snd (handler_process_payment payment_request (stored_world PENDING PENDING)))
           (''CUST-001'', ''2024-01-15T10:00:00.000Z#ORD-01A'')) = Some (Some PAY_PENDING)"
    by (simp add: handler_process_payment_frame(1) stored_primary sample_order_def
          build_order_def Let_def)
  have projection: "map_option b_payment_state
        (orders_by_id (snd (handler_process_payment payment_request (stored_world PENDING PENDING)))
           ''ORD-01A'') = Some (Some PAY_CAPTURED)"
    using handler_process_payment_captured [OF q a(1,2)] by (simp add: a(3))
  from handler_process_payment_frame(1,4,5) [of event w] primary projection
  show ?thesis by blast
qed

text \<open>
  C6. A work item whose order is read back with a status other than PENDING: the
  orchestrator changes nothing (the world after it differs only in the answer consumed by
  its one read), invokes no function, and does not report the item: the batch goes on as
  if the item had not been there, and a batch of this item alone has no item failure.
\<close>

theorem process_order_skips_processed:
  assumes "sqs_body record = Some message"
    and "\<not> shd (faults w)"
    and "orders_by_id w (m_order_id message) = Some order"
    and "b_status order \<noteq> Some PENDING"
  shows "process_record record w = (False, w\<lparr>faults := stl (faults w)\<rparr>)
       \<and> orders (snd (process_record record w)) = orders w
       \<and> orders_by_id (snd (process_record record w)) = orders_by_id w
       \<and> inventory (snd (process_record record w)) = inventory w
       \<and> invoked (snd (process_record record w)) = invoked w
       \<and> notifications (snd (process_record record w)) = notifications w
       \<and> handler_process_order [record] w = ([], w\<lparr>faults := stl (faults w)\<rparr>)
       \<and> handler_process_order (record # records) w
           = handler_process_order records (w\<lparr>faults := stl (faults w)\<rparr>)"
proof -
  have p: "process_record record w = (False, w\<lparr>faults := stl (faults w)\<rparr>)"
    using assms
    by (simp add: process_record_def getOrderById_def get_order_by_id_def take_fault_def)
  show ?thesis by (simp add: p split: prod.splits)
qed

theorem process_order_skips_processed_witness:
  "sqs_body sample_record = Some sample_message
   \<and> \<not> shd (faults (stored_world CONFIRMED CONFIRMED))
   \<and> map_option b_status (orders_by_id (stored_world CONFIRMED CONFIRMED) (m_order_id sample_message))
       = Some (Some CONFIRMED)
   \<and> handler_process_order [sample_record] (stored_world CONFIRMED CONFIRMED)
       = ([], (stored_world CONFIRMED CONFIRMED)\<lparr>faults := stl (faults (stored_world CONFIRMED CONFIRMED))\<rparr>)
   \<and> invoked (snd (process_record sample_record (stored_world CONFIRMED CONFIRMED))) = []"
proof -
  have b: "sqs_body sample_record = Some sample_message" by (simp add: sample_record_def)
  have q: "\<not> shd (faults (stored_world CONFIRMED CONFIRMED))" by (simp add: stored_quiet)
  have o: "orders_by_id (stored_world CONFIRMED CONFIRMED) (m_order_id sample_message)
             = Some (orderById_of (sample_order CONFIRMED) ''ORD-01A'')"
    by (simp add: sample_message_def stored_by_id)
  have s: "b_status (orderById_of (sample_order CONFIRMED) ''ORD-01A'') \<noteq> Some PENDING"
    by (simp add: sample_projection)
  have i: "invoked (stored_world CONFIRMED CONFIRMED) = []"
    by (simp add: stored_world_def quiet_world_def)
  from process_order_skips_processed [OF b q o s, of "[]"] b q o i
  show ?thesis by (simp add: sample_projection)
qed

text \<open>
  C5. A MODIFY record with both images. If the payment state differs and the status does
  not, the transformer emits the one event PaymentStateChanged. If both differ, it emits
  OrderStatusChanged first, then OrderConfirmed, OrderCancelled or OrderShipped when the
  new status is CONFIRMED, CANCELLED or SHIPPED (nothing for another status), then
  PaymentStateChanged.
\<close>

theorem modify_events:
  assumes "eventName record = Some MODIFY" and "dynamodb record = Some images"
    and "NewImage images = Some newImage" and "OldImage images = Some oldImage"
  shows "(status newImage = status oldImage \<and> payment_state newImage \<noteq> payment_state oldImage \<longrightarrow>
            transformToDomainEvents bus timestamp record =
              [entry bus timestamp ''Payment State Changed''
                 (PAYMENT_STATE_CHANGED (order_id newImage) (customer_id newImage)
                    (payment_state oldImage) (payment_state newImage) (total newImage) timestamp)])
       \<and> (status newImage \<noteq> status oldImage \<and> payment_state newImage \<noteq> payment_state oldImage \<longrightarrow>
            transformToDomainEvents bus timestamp record =
              [entry bus timestamp ''Order Status Changed''
                 (ORDER_STATUS_CHANGED (order_id newImage) (customer_id newImage) (store_id newImage)
                    (county_id newImage) (status oldImage) (status newImage) (total newImage) timestamp)]
              @ (if status newImage = Some CONFIRMED
                 then [entry bus timestamp ''Order Confirmed''
                         (ORDER_CONFIRMED (order_id newImage) (customer_id newImage) (store_id newImage)
                            (county_id newImage) (total newImage) (items newImage)
                            (shipping_address newImage) timestamp)]
                 else if status newImage = Some CANCELLED
                 then [entry bus timestamp ''Order Cancelled''
                         (ORDER_CANCELLED (order_id newImage) (customer_id newImage) (store_id newImage)
                            (county_id newImage) (total newImage) timestamp)]
                 else if status newImage = Some SHIPPED
                 then [entry bus timestamp ''Order Shipped''
                         (ORDER_SHIPPED (order_id newImage) (customer_id newImage) (store_id newImage)
                            (shipping_address newImage) timestamp)]
                 else [])
              @ [entry bus timestamp ''Payment State Changed''
                   (PAYMENT_STATE_CHANGED (order_id newImage) (customer_id newImage)
                      (payment_state oldImage) (payment_state newImage) (total newImage) timestamp)])"
  using assms by (simp add: transformToDomainEvents_def)

lemma modify_record_facts:
  "eventName (modify_record oldImage newImage) = Some MODIFY"
  "dynamodb (modify_record oldImage newImage) = Some \<lparr>NewImage = Some newImage, OldImage = Some oldImage\<rparr>"
  "NewImage \<lparr>NewImage = Some newImage, OldImage = Some oldImage\<rparr> = Some newImage"
  "OldImage \<lparr>NewImage = Some newImage, OldImage = Some oldImage\<rparr> = Some oldImage"
  by (simp_all add: modify_record_def)

lemma sample_order_payment: "payment_state (sample_order s) = Some PAY_PENDING"
  by (simp add: sample_order_def build_order_def Let_def)

theorem modify_events_witness:
  "eventName (modify_record (sample_order PENDING) ((sample_order PENDING)\<lparr>payment_state := Some PAY_CAPTURED\<rparr>))
     = Some MODIFY
   \<and> map DetailType
        (transformToDomainEvents ''orders-bus'' ''2024-01-15T10:00:05.000Z''
           (modify_record (sample_order PENDING) ((sample_order PENDING)\<lparr>payment_state := Some PAY_CAPTURED\<rparr>)))
       = [''Payment State Changed'']
   \<and> map DetailType
        (transformToDomainEvents ''orders-bus'' ''2024-01-15T10:00:05.000Z''
           (modify_record (sample_order PENDING) ((sample_order CONFIRMED)\<lparr>payment_state := Some PAY_CAPTURED\<rparr>)))
       = [''Order Status Changed'', ''Order Confirmed'', ''Payment State Changed'']
   \<and> map DetailType
        (transformToDomainEvents ''orders-bus'' ''2024-01-15T10:00:05.000Z''
           (modify_record (sample_order CONFIRMED) ((sample_order PROCESSING)\<lparr>payment_state := Some PAY_REFUNDED\<rparr>)))
       = [''Order Status Changed'', ''Payment State Changed'']"
proof -
  note a = modify_events [OF modify_record_facts
      [where oldImage = "sample_order PENDING" and newImage = "(sample_order PENDING)\<lparr>payment_state := Some PAY_CAPTURED\<rparr>"],
      where bus = "''orders-bus''" and timestamp = "''2024-01-15T10:00:05.000Z''"]
  note b = modify_events [OF modify_record_facts
      [where oldImage = "sample_order PENDING" and newImage = "(sample_order CONFIRMED)\<lparr>payment_state := Some PAY_CAPTURED\<rparr>"],
      where bus = "''orders-bus''" and timestamp = "''2024-01-15T10:00:05.000Z''"]
  note c = modify_events [OF modify_record_facts
      [where oldImage = "sample_order CONFIRMED" and newImage = "(sample_order PROCESSING)\<lparr>payment_state := Some PAY_REFUNDED\<rparr>"],
      where bus = "''orders-bus''" and timestamp = "''2024-01-15T10:00:05.000Z''"]
  from a b c show ?thesis
    by (simp add: modify_record_facts sample_projection sample_order_payment entry_def)
qed

section \<open>The rounding error of the totals\<close>





















section \<open>Properties of the totals of a created order\<close>

lemma build_order_totals:
  "subtotal (build_order request key orderId orderTs) = Some (calc_subtotal (q_items request))"
  "tax (build_order request key orderId orderTs) = Some (calc_tax (calc_subtotal (q_items request)))"
  "total (build_order request key orderId orderTs)
     = Some (calc_total (calc_subtotal (q_items request)) (calc_tax (calc_subtotal (q_items request))))"
  by (simp_all add: build_order_def Let_def)






lemma sample_totals:
  "calc_subtotal (q_items sample_request) = 98"
  "calc_tax 98 = 2206763817411543 / 281474976710656"
  "calc_total 98 (2206763817411543 / 281474976710656) = 3723913941881979 / 35184372088832"
  "spec_subtotal (q_items sample_request) = 98"
  by code_simp+

lemma priced_request_valid: "0 < wine \<Longrightarrow> 0 < beer \<Longrightarrow> request_issues (priced_request wine beer) = []"
  by (simp add: request_issues_def item_issues_def priced_request_def sample_request_def)




lemma near_totals:
  "calc_subtotal (q_items near_request) = 560000000000001 / 4"
  "calc_tax (560000000000001 / 4) = 2867200000000005 / 256"
  "calc_total (560000000000001 / 4) (2867200000000005 / 256) = 4838400000000009 / 32"
  "spec_subtotal (q_items near_request) = 560000000000001 / 4"
  by code_simp+

lemma near_numbers:
  "list_all marshalls_item (itemsWithTotals (q_items near_request))"
  "marshalls_number (calc_subtotal (q_items near_request))"
  "marshalls_number (calc_tax (calc_subtotal (q_items near_request)))"
  "marshalls_number
     (calc_total (calc_subtotal (q_items near_request)) (calc_tax (calc_subtotal (q_items near_request))))"
  by code_simp+

lemma big_numbers: "\<not> list_all marshalls_item (itemsWithTotals (q_items big_request))"
  by code_simp

lemma quiet_world_facts:
  "faults quiet_world = sconst False"
  "shd (ulids quiet_world) = ''01A''"
  "shd (instants quiet_world) = ''2024-01-15T10:00:00.000Z''"
  "orders quiet_world = Map.empty"
  by (simp_all add: quiet_world_def)

lemma create_event_facts:
  "headers (create_event k request) ''X-Idempotency-Key'' = Some k"
  "event_body (create_event k request) = Shaped request"
  by (simp_all add: create_event_def)

lemma key_nonempty: "''duplicate-key-123'' \<noteq> []"
  by simp



section \<open>Further properties of the repository and the orchestrator\<close>

text \<open>
  \<open>createOrder\<close> called twice with orders of the same primary key that hold no number the
  document client refuses, in a world where no request fails and the key is free: the
  first call stores the order and its projection and returns it as created; the second
  returns the stored order as not created and changes nothing, whatever else the second
  order holds.
\<close>

theorem createOrder_twice_same_key:
  assumes "orders w (customer_id order, order_ts_id order) = None"
    and "faults w = sconst False" and "order_id order = Some k"
    and "customer_id order' = customer_id order" and "order_ts_id order' = order_ts_id order"
    and "marshalls_order order" and "marshalls_order order'"
  shows "createOrder order w
           = (Inr (True, order),
              w\<lparr>orders := (orders w)((customer_id order, order_ts_id order) \<mapsto> order),
                orders_by_id := (orders_by_id w)(k \<mapsto> orderById_of order k)\<rparr>)
       \<and> createOrder order' (snd (createOrder order w)) = (Inr (False, order), snd (createOrder order w))"
proof -
  note first = createOrder_fresh [OF assms(1-3,6)]
  let ?w1 = "snd (createOrder order w)"
  have s: "orders ?w1 (customer_id order', order_ts_id order') = Some order"
    unfolding first by (simp add: assms(4,5))
  have q: "faults ?w1 = sconst False" unfolding first by (simp add: assms(2))
  from first createOrder_duplicate [OF s q assms(7)] show ?thesis by simp
qed

theorem createOrder_twice_same_key_witness:
  "orders quiet_world (customer_id (sample_order PENDING), order_ts_id (sample_order PENDING)) = None
   \<and> faults quiet_world = sconst False
   \<and> order_id (sample_order PENDING) = Some ''ORD-01A''
   \<and> marshalls_order (sample_order PENDING)
   \<and> marshalls_order ((sample_order PENDING)\<lparr>idempotency_key := Some ''another-key''\<rparr>)
   \<and> fst (createOrder (sample_order PENDING) quiet_world) = Inr (True, sample_order PENDING)
   \<and> createOrder ((sample_order PENDING)\<lparr>idempotency_key := Some ''another-key''\<rparr>)
         (snd (createOrder (sample_order PENDING) quiet_world))
       = (Inr (False, sample_order PENDING), snd (createOrder (sample_order PENDING) quiet_world))"
proof -
  have a: "orders quiet_world (customer_id (sample_order PENDING), order_ts_id (sample_order PENDING)) = None"
    by (simp add: quiet_world_facts)
  have k: "order_id (sample_order PENDING) = Some ''ORD-01A''"
    by (simp add: sample_order_def)
  have c: "customer_id ((sample_order PENDING)\<lparr>idempotency_key := Some ''another-key''\<rparr>)
             = customer_id (sample_order PENDING)"
    "order_ts_id ((sample_order PENDING)\<lparr>idempotency_key := Some ''another-key''\<rparr>)
             = order_ts_id (sample_order PENDING)"
    by simp_all
  have m: "marshalls_order (sample_order PENDING)"
    "marshalls_order ((sample_order PENDING)\<lparr>idempotency_key := Some ''another-key''\<rparr>)"
    using sample_marshalls [of "''duplicate-key-123''" "''ORD-01A''" "''2024-01-15T10:00:00.000Z''"]
    by (simp_all add: sample_order_def marshalls_order_def)
  note t = createOrder_twice_same_key [OF a quiet_world_facts(1) k c m]
  from t have 1: "fst (createOrder (sample_order PENDING) quiet_world) = Inr (True, sample_order PENDING)"
    by simp
  from t have 2: "createOrder ((sample_order PENDING)\<lparr>idempotency_key := Some ''another-key''\<rparr>)
         (snd (createOrder (sample_order PENDING) quiet_world))
       = (Inr (False, sample_order PENDING), snd (createOrder (sample_order PENDING) quiet_world))"
    by (rule conjunct2)
  from a quiet_world_facts(1) k m 1 2 show ?thesis by blast
qed

text \<open>
  A valid create request with a price above \<open>Number.MAX_SAFE_INTEGER\<close>
  (9007199254740992 and 1, one of each): the document client refuses the order before the
  first write is sent, the handler answers 500, and nothing is stored or enqueued.
\<close>

theorem create_order_unsafe_number_refused:
  "request_issues big_request = []
   \<and> \<not> marshalls_order
           (build_order big_request ''duplicate-key-123'' ''ORD-01A'' ''2024-01-15T10:00:00.000Z'')
   \<and> fst (createOrder
            (build_order big_request ''duplicate-key-123'' ''ORD-01A'' ''2024-01-15T10:00:00.000Z'')
            quiet_world) = Inl MarshallError
   \<and> fst (handler_create_order (create_event ''duplicate-key-123'' big_request) quiet_world)
       = internal_server_error
   \<and> orders (snd (handler_create_order (create_event ''duplicate-key-123'' big_request) quiet_world))
       = Map.empty
   \<and> orders_by_id (snd (handler_create_order (create_event ''duplicate-key-123'' big_request) quiet_world))
       = Map.empty
   \<and> queue (snd (handler_create_order (create_event ''duplicate-key-123'' big_request) quiet_world)) = []"
proof -
  have v: "request_issues big_request = []"
    unfolding big_request_def by (rule priced_request_valid) simp_all
  have m: "\<not> marshalls_order (build_order big_request k i t)" for k i t
    by (simp add: marshalls_build_order big_numbers)
  note h = handler_create_order_refused
    [OF create_event_facts(1) key_nonempty create_event_facts(2) v m]
  show ?thesis
    unfolding h by (simp add: v m createOrder_refused quiet_world_def)
qed

text \<open>
  An order a thirtieth the size of \<open>large_request\<close> still misses the tolerance of 1/100: for
  one item at 140000000000000.25 the order is created, its subtotal is the price, its tax
  is 11200000000000.01953125, and its total is 151200000000000.28125, where doubles are
  1/32 apart: 0.01171875 more than subtotal plus tax. With its one item and its exact sum
  \<open>S\<close>, \<open>110 * 1 * S\<close> is less than twice \<open>2 ^ 53\<close>.
\<close>

theorem near_bound_total_off:
  "request_issues near_request = []
   \<and> statusCode (fst (handler_create_order (create_event ''duplicate-key-123'' near_request) quiet_world)) = 201
   \<and> map_option (\<lambda>order. (subtotal order, tax order, total order))
        (orders (snd (handler_create_order (create_event ''duplicate-key-123'' near_request) quiet_world))
           (''CUST-001'', ''2024-01-15T10:00:00.000Z#ORD-01A''))
       = Some (Some (560000000000001 / 4), Some (2867200000000005 / 256), Some (4838400000000009 / 32))
   \<and> \<not> \<bar>(4838400000000009 / 32 :: rat) - (560000000000001 / 4 + 2867200000000005 / 256)\<bar> \<le> 1 / 100
   \<and> spec_subtotal (q_items near_request) = 560000000000001 / 4
   \<and> 110 * (of_nat (length (q_items near_request)) * spec_subtotal (q_items near_request))
       \<le> 2 * 2 ^ 53"
proof -
  have v: "request_issues near_request = []"
    by (simp add: request_issues_def item_issues_def near_request_def sample_request_def)
  have c: "q_customer_id near_request = ''CUST-001''"
    by (simp add: near_request_def sample_request_def)
  have m: "marshalls_order (build_order near_request k i t)" for k i t
    by (simp add: marshalls_build_order near_numbers)
  have f: "orders quiet_world (q_customer_id near_request,
             shd (instants quiet_world) @ ''#'' @ ''ORD-'' @ shd (ulids quiet_world)) = None"
    by (simp add: quiet_world_facts)
  have n: "length (q_items near_request) = 1"
    by (simp add: near_request_def)
  note h = handler_create_order_fresh
    [OF create_event_facts(1) key_nonempty create_event_facts(2) v quiet_world_facts(1) f refl m]
  show ?thesis
    unfolding h by (simp add: v near_totals c n quiet_world_facts build_order_totals)
qed

text \<open>A synchronous invocation that the function answers is a success for the caller,
  whatever the answer says.\<close>

lemma invokeFunction_answered:
  assumes "\<not> shd (faults w)" and "\<not> shd (function_errors w)"
  shows "i_success (fst (invokeFunction (ReservePayload r) False w))"
    and "i_data (fst (invokeFunction (ReservePayload r) False w))
           = Some (ReserveData (fst (handler_reserve_inventory r
                (w\<lparr>invoked := invoked w @ [''RESERVE_INVENTORY_FN''], faults := stl (faults w),
                   function_errors := stl (function_errors w)\<rparr>))))"
  using assms
  by (simp_all add: invokeFunction_def take_fault_def function_name_def Let_def split: prod.splits)

lemma sdrop_sconst [simp]: "sdrop n (sconst x) = sconst x"
  by (induction n) simp_all

lemma handler_reserve_inventory_rejects:
  assumes "ri_items event = Some its"
    and "\<exists>item \<in> set its.
           available_quantity (inventory w (template (ri_store_id event) @ ''#'' @ sku item))
             < quantity item"
    and "faults w = sconst False"
  shows "\<not> rr_success (fst (handler_reserve_inventory event w))"
    and "snd (handler_reserve_inventory event w)
           = w\<lparr>ulids := stl (ulids w), instants := stl (instants w), epochs := stl (epochs w)\<rparr>"
proof -
  let ?w0 = "w\<lparr>ulids := stl (ulids w), instants := stl (instants w), epochs := stl (epochs w)\<rparr>"
  obtain r w1 where a: "availabilityChecks (ri_store_id event) its ?w0 = (r, w1)" by force
  note f = availabilityChecks_frame [OF a]
  have w1: "w1 = ?w0" using f assms(3) by simp
  have q: "\<forall>n < length its. \<not> faults ?w0 !! n" using assms(3) by simp
  then obtain cs where r: "r = Inr cs" using f by blast
  have cs: "filter (\<lambda>c. \<not> c_sufficient c) cs \<noteq> []"
    using f r assms(2) by (fastforce simp: filter_empty_conv not_le)
  show "\<not> rr_success (fst (handler_reserve_inventory event w))"
    by (rule handler_reserve_inventory_insufficient(1) [OF assms(1,2)])
  show "snd (handler_reserve_inventory event w) = ?w0"
    using assms(1) a r cs w1
    by (simp add: handler_reserve_inventory_def generateReservationId_def ulid_def
          new_Date_toISOString_def calculateTTL_def Date_now_def Let_def)
qed

lemma handler_process_payment_succeeds:
  assumes "faults w = sconst False" and "shd (randoms w) < round_double (95 / 100)"
    and "pp_amount event = Some a" and "0 < a"
  shows "pr_success (fst (handler_process_payment event w))"
    and "snd (handler_process_payment event w)
           = w\<lparr>instants := stl (instants w), randoms := stl (stl (randoms w)),
               epochs := stl (epochs w),
               orders_by_id := (orders_by_id w)(pp_order_id event \<mapsto>
                  (case orders_by_id w (pp_order_id event) of
                     None \<Rightarrow> blank_order_by_id (pp_order_id event)
                   | Some item \<Rightarrow> item)
                  \<lparr>b_payment_state := Some PAY_CAPTURED, b_updated_at := Some (shd (instants w))\<rparr>)\<rparr>"
  using assms
  by (simp_all add: handler_process_payment_def new_Date_toISOString_def simulatePayment_def
        Math_random_def Date_now_def update_order_by_id_payment_def take_fault_def Let_def)

lemma updateOrderStatus_succeeds:
  assumes "faults w = sconst False"
    and "orders w (customerId, orderTsId) = Some item" and "status item = Some expected"
  shows "updateOrderStatus customerId orderTsId orderId newStatus (Some expected) w
           = (Inr True,
              w\<lparr>instants := stl (instants w),
                orders := (orders w)((customerId, orderTsId) \<mapsto>
                   item\<lparr>status := Some newStatus, updated_at := Some (shd (instants w))\<rparr>),
                orders_by_id := (orders_by_id w)(orderId \<mapsto>
                   (case orders_by_id w orderId of
                      None \<Rightarrow> blank_order_by_id orderId
                    | Some row \<Rightarrow> row)
                   \<lparr>b_status := Some newStatus, b_updated_at := Some (shd (instants w))\<rparr>)\<rparr>)"
  using assms
  by (simp add: updateOrderStatus_def update_order_status_def update_order_by_id_status_def
        new_Date_toISOString_def take_fault_def Let_def)

lemma invokeFunction_reserve_rejected:
  assumes "ri_items r = Some its"
    and "\<exists>item \<in> set its.
           available_quantity (inventory w (template (ri_store_id r) @ ''#'' @ sku item))
             < quantity item"
    and "faults w = sconst False" and "function_errors w = sconst False"
  shows "i_success (fst (invokeFunction (ReservePayload r) False w))"
    and "snd (invokeFunction (ReservePayload r) False w)
           = w\<lparr>invoked := invoked w @ [''RESERVE_INVENTORY_FN''], ulids := stl (ulids w),
               instants := stl (instants w), epochs := stl (epochs w)\<rparr>"
    and "\<exists>resp. i_data (fst (invokeFunction (ReservePayload r) False w)) = Some (ReserveData resp)
           \<and> \<not> rr_success resp"
proof -
  let ?w2 = "w\<lparr>invoked := invoked w @ [''RESERVE_INVENTORY_FN'']\<rparr>"
  have q: "faults ?w2 = sconst False" using assms(3) by simp
  have sh: "\<exists>item \<in> set its.
           available_quantity (inventory ?w2 (template (ri_store_id r) @ ''#'' @ sku item))
             < quantity item" using assms(2) by simp
  note h = handler_reserve_inventory_rejects [OF assms(1) sh q]
  have u: "invokeFunction (ReservePayload r) False w
             = (\<lparr>i_success = True,
                 i_data = Some (ReserveData (fst (handler_reserve_inventory r ?w2))),
                 i_error = None\<rparr>, snd (handler_reserve_inventory r ?w2))"
    using assms(3,4)
    by (cases w) (simp add: invokeFunction_def take_fault_def function_name_def Let_def split: prod.splits)
  show "i_success (fst (invokeFunction (ReservePayload r) False w))" by (simp add: u)
  show "snd (invokeFunction (ReservePayload r) False w)
           = w\<lparr>invoked := invoked w @ [''RESERVE_INVENTORY_FN''], ulids := stl (ulids w),
               instants := stl (instants w), epochs := stl (epochs w)\<rparr>"
    by (simp add: u h(2))
  show "\<exists>resp. i_data (fst (invokeFunction (ReservePayload r) False w)) = Some (ReserveData resp)
           \<and> \<not> rr_success resp"
    using h(1) by (simp add: u)
qed

lemma invokeFunction_payment_succeeds:
  assumes "faults w = sconst False" and "function_errors w = sconst False"
    and "shd (randoms w) < round_double (95 / 100)"
    and "pp_amount p = Some a" and "0 < a"
  shows "i_success (fst (invokeFunction (PaymentPayload p) False w))"
    and "snd (invokeFunction (PaymentPayload p) False w)
           = w\<lparr>invoked := invoked w @ [''PROCESS_PAYMENT_FN''],
               instants := stl (instants w), randoms := stl (stl (randoms w)),
               epochs := stl (epochs w),
               orders_by_id := (orders_by_id w)(pp_order_id p \<mapsto>
                  (case orders_by_id w (pp_order_id p) of
                     None \<Rightarrow> blank_order_by_id (pp_order_id p)
                   | Some item \<Rightarrow> item)
                  \<lparr>b_payment_state := Some PAY_CAPTURED, b_updated_at := Some (shd (instants w))\<rparr>)\<rparr>"
proof -
  let ?w2 = "w\<lparr>invoked := invoked w @ [''PROCESS_PAYMENT_FN'']\<rparr>"
  have q: "faults ?w2 = sconst False" "shd (randoms ?w2) < round_double (95 / 100)"
    using assms(1,3) by simp_all
  note h = handler_process_payment_succeeds [OF q assms(4,5)]
  have u: "invokeFunction (PaymentPayload p) False w
             = (\<lparr>i_success = True,
                 i_data = Some (PaymentData (fst (handler_process_payment p ?w2))),
                 i_error = None\<rparr>, snd (handler_process_payment p ?w2))"
    using assms(1,2)
    by (cases w) (simp add: invokeFunction_def take_fault_def function_name_def Let_def split: prod.splits)
  show "i_success (fst (invokeFunction (PaymentPayload p) False w))" by (simp add: u)
  show "snd (invokeFunction (PaymentPayload p) False w)
           = w\<lparr>invoked := invoked w @ [''PROCESS_PAYMENT_FN''],
               instants := stl (instants w), randoms := stl (stl (randoms w)),
               epochs := stl (epochs w),
               orders_by_id := (orders_by_id w)(pp_order_id p \<mapsto>
                  (case orders_by_id w (pp_order_id p) of
                     None \<Rightarrow> blank_order_by_id (pp_order_id p)
                   | Some item \<Rightarrow> item)
                  \<lparr>b_payment_state := Some PAY_CAPTURED, b_updated_at := Some (shd (instants w))\<rparr>)\<rparr>"
    by (simp add: u h(2))
qed

lemma invokeFunction_notify:
  assumes "faults w = sconst False"
  shows "snd (invokeFunction (NotifyPayload n) True w)
           = w\<lparr>invoked := invoked w @ [''SEND_NOTIFICATIONS_FN''],
               notifications := notifications w @ [n]\<rparr>"
  using assms by (simp add: invokeFunction_def take_fault_quiet function_name_def)

text \<open>
  The orchestrator on a PENDING order for which the reservation handler refuses the
  request (an item is short), with a payment that succeeds: \<open>invokeFunction\<close> reports the
  invocation as a success, since the refusal is the function's answer, so the orchestrator
  goes on to the payment and confirms the order; the inventory is as it was.
\<close>

theorem process_record_confirms_rejected_reservation:
  assumes "sqs_body record = Some message"
    and "faults w = sconst False" and "function_errors w = sconst False"
    and "orders_by_id w (m_order_id message) = Some order"
    and "b_status order = Some PENDING"
    and "b_items order = Some its"
    and "\<exists>item \<in> set its.
           available_quantity (inventory w (template (b_store_id order) @ ''#'' @ sku item))
             < quantity item"
    and "b_total order = Some a" and "0 < a"
    and "shd (randoms w) < round_double (95 / 100)"
    and "orders w (m_customer_id message, template (b_order_ts order) @ ''#'' @ b_order_id order)
           = Some item"
    and "status item = Some PENDING"
  shows "fst (process_record record w) = False
       \<and> map_option status
            (orders (snd (process_record record w))
               (m_customer_id message, template (b_order_ts order) @ ''#'' @ b_order_id order))
           = Some (Some CONFIRMED)
       \<and> map_option b_status (orders_by_id (snd (process_record record w)) (m_order_id message))
           = Some (Some CONFIRMED)
       \<and> inventory (snd (process_record record w)) = inventory w
       \<and> invoked (snd (process_record record w))
           = invoked w @ [''RESERVE_INVENTORY_FN'', ''PROCESS_PAYMENT_FN'', ''SEND_NOTIFICATIONS_FN'']
       \<and> notifications (snd (process_record record w))
           = notifications w @ [\<lparr>n_order_id = m_order_id message, n_customer_id = m_customer_id message,
                                  n_status = CONFIRMED, n_total = Some a, n_reason = None\<rparr>]"
proof -
  let ?r = "\<lparr>ri_order_id = m_order_id message, ri_customer_id = m_customer_id message,
             ri_store_id = b_store_id order, ri_items = b_items order\<rparr>"
  let ?p = "\<lparr>pp_order_id = m_order_id message, pp_customer_id = m_customer_id message,
             pp_amount = b_total order\<rparr>"
  let ?key = "(m_customer_id message, template (b_order_ts order) @ ''#'' @ b_order_id order)"
  define w2 where "w2 = snd (invokeFunction (ReservePayload ?r) False w)"
  define w3 where "w3 = snd (invokeFunction (PaymentPayload ?p) False w2)"
  have g: "getOrderById (m_order_id message) w = (Inr (Some order), w)"
    using assms(2,4) by (simp add: getOrderById_def get_order_by_id_def take_fault_quiet)
  have sh: "\<exists>item \<in> set its.
           available_quantity (inventory w (template (ri_store_id ?r) @ ''#'' @ sku item))
             < quantity item" using assms(7) by simp
  have ri: "ri_items ?r = Some its" using assms(6) by simp
  note i1 = invokeFunction_reserve_rejected(1,2) [OF ri sh assms(2,3)]
  have w2: "w2 = w\<lparr>invoked := invoked w @ [''RESERVE_INVENTORY_FN''], ulids := stl (ulids w),
               instants := stl (instants w), epochs := stl (epochs w)\<rparr>"
    unfolding w2_def by (rule i1(2))
  have q2: "faults w2 = sconst False" "function_errors w2 = sconst False"
    "shd (randoms w2) < round_double (95 / 100)"
    using assms(2,3,10) by (simp_all add: w2)
  have pa: "pp_amount ?p = Some a" using assms(8) by simp
  note i2 = invokeFunction_payment_succeeds [OF q2 pa assms(9)]
  have w3: "w3 = w2\<lparr>invoked := invoked w2 @ [''PROCESS_PAYMENT_FN''],
               instants := stl (instants w2), randoms := stl (stl (randoms w2)),
               epochs := stl (epochs w2),
               orders_by_id := (orders_by_id w2)(m_order_id message \<mapsto>
                  order\<lparr>b_payment_state := Some PAY_CAPTURED, b_updated_at := Some (shd (instants w2))\<rparr>)\<rparr>"
    unfolding w3_def using i2(2) assms(4) by (simp add: w2)
  have q3: "faults w3 = sconst False" using q2 by (simp add: w3)
  have o3: "orders w3 ?key = Some item" using assms(11) by (simp add: w3 w2)
  note u = updateOrderStatus_succeeds [OF q3 o3 assms(12), of "m_order_id message" CONFIRMED]
  define w4 where "w4 = snd (updateOrderStatus (m_customer_id message)
      (template (b_order_ts order) @ ''#'' @ b_order_id order) (m_order_id message) CONFIRMED
      (Some PENDING) w3)"
  have q4: "faults w4 = sconst False" unfolding w4_def u using q3 by simp
  obtain res1 where e1: "invokeFunction (ReservePayload ?r) False w = (res1, w2)"
    and s1: "i_success res1"
    using i1(1) by (cases "invokeFunction (ReservePayload ?r) False w") (simp add: w2_def)
  obtain res2 where e2: "invokeFunction (PaymentPayload ?p) False w2 = (res2, w3)"
    and s2: "i_success res2"
    using i2(1) by (cases "invokeFunction (PaymentPayload ?p) False w2") (simp add: w3_def)
  have e4: "updateOrderStatus (m_customer_id message)
      (template (b_order_ts order) @ ''#'' @ b_order_id order) (m_order_id message) CONFIRMED
      (Some PENDING) w3 = (Inr True, w4)"
    unfolding w4_def u by simp
  have run: "process_record record w =
      (False, snd (invokeFunction
                     (NotifyPayload \<lparr>n_order_id = m_order_id message,
                                     n_customer_id = m_customer_id message, n_status = CONFIRMED,
                                     n_total = b_total order, n_reason = None\<rparr>) True w4))"
    using assms(1,5) g e1 s1 e2 s2 e4
    by (simp add: process_record_def)
  show ?thesis
    unfolding run invokeFunction_notify [OF q4]
    unfolding w4_def u
    by (simp add: w3 w2 assms(8))
qed

lemma short_world_facts:
  "faults short_world = sconst False" "function_errors short_world = sconst False"
  "shd (randoms short_world) = 1 / 2"
  "orders_by_id short_world ''ORD-01A'' = Some (orderById_of (sample_order PENDING) ''ORD-01A'')"
  "orders short_world (''CUST-001'', ''2024-01-15T10:00:00.000Z#ORD-01A'') = Some (sample_order PENDING)"
  "inventory short_world ''STORE-001#WINE-001''
     = Some \<lparr>store_sku = ''STORE-001#WINE-001'', quantity_available = Some 5,
             quantity_reserved = Some 4, inv_updated_at = None\<rparr>"
  "invoked short_world = []" "notifications short_world = []"
  by (simp_all add: short_world_def stored_world_def quiet_world_def)

lemma sample_projection_items:
  "b_items (orderById_of (sample_order s) k) = Some (itemsWithTotals (q_items sample_request))"
  "b_store_id (orderById_of (sample_order s) k) = Some ''STORE-001''"
  "b_total (orderById_of (sample_order s) k) = Some (3723913941881979 / 35184372088832)"
  by (simp_all add: orderById_of_def sample_order_def build_order_totals sample_totals)
     (simp_all add: build_order_def Let_def sample_request_def)

theorem process_record_confirms_rejected_reservation_witness:
  "sqs_body sample_record = Some sample_message
   \<and> faults short_world = sconst False \<and> function_errors short_world = sconst False
   \<and> map_option b_status (orders_by_id short_world (m_order_id sample_message)) = Some (Some PENDING)
   \<and> available_quantity (inventory short_world ''STORE-001#WINE-001'') = 1
   \<and> fst (process_record sample_record short_world) = False
   \<and> map_option status
        (orders (snd (process_record sample_record short_world))
           (''CUST-001'', ''2024-01-15T10:00:00.000Z#ORD-01A'')) = Some (Some CONFIRMED)
   \<and> map_option b_status (orders_by_id (snd (process_record sample_record short_world)) ''ORD-01A'')
       = Some (Some CONFIRMED)
   \<and> inventory (snd (process_record sample_record short_world)) = inventory short_world
   \<and> invoked (snd (process_record sample_record short_world))
       = [''RESERVE_INVENTORY_FN'', ''PROCESS_PAYMENT_FN'', ''SEND_NOTIFICATIONS_FN'']
   \<and> map n_status (notifications (snd (process_record sample_record short_world))) = [CONFIRMED]"
proof -
  let ?order = "orderById_of (sample_order PENDING) ''ORD-01A''"
  have b: "sqs_body sample_record = Some sample_message" by (simp add: sample_record_def)
  have m: "m_order_id sample_message = ''ORD-01A''" "m_customer_id sample_message = ''CUST-001''"
    by (simp_all add: sample_message_def)
  have o: "orders_by_id short_world (m_order_id sample_message) = Some ?order"
    by (simp add: m short_world_facts)
  have a: "available_quantity (inventory short_world ''STORE-001#WINE-001'') = 1"
    by (simp add: short_world_facts available_quantity_def)
  have sh: "\<exists>item \<in> set (itemsWithTotals (q_items sample_request)).
           available_quantity (inventory short_world (template (b_store_id ?order) @ ''#'' @ sku item))
             < quantity item"
    by (simp add: sample_projection_items template_def itemsWithTotals_def sample_request_def a)
  have t: "(0::rat) < 3723913941881979 / 35184372088832" by simp
  have d: "shd (randoms short_world) < round_double (95 / 100)"
    using success_rate by (simp add: short_world_facts)
  have p: "orders short_world (m_customer_id sample_message,
             template (b_order_ts ?order) @ ''#'' @ b_order_id ?order) = Some (sample_order PENDING)"
    unfolding m sample_projection(3) by (simp add: short_world_facts)
  note r = process_record_confirms_rejected_reservation
    [OF b short_world_facts(1,2) o sample_projection(1) sample_projection_items(1) sh
        sample_projection_items(3) t d p sample_projection(4)]
  from r [unfolded m sample_projection(3)] b short_world_facts(1,2) o a show ?thesis
    by (simp add: m sample_projection short_world_facts)
qed

end
